theory Spec2Isabelle
  imports Main
begin

section \<open>The NftScan client: data model\<close>

text \<open>
  The embedding follows \<^verbatim>\<open>nftscan/nftscan_api.py\<close>. A JSON value is what
  \<^verbatim>\<open>response.json()\<close> returns and what \<^verbatim>\<open>json.dumps\<close> takes: \<^verbatim>\<open>None\<close>, a bool, an
  int, a str, a list or a dict. A dict is the list of its items in insertion order.
  Numbers are Python's unbounded integers; non-integral numbers are outside the model.
\<close>

datatype json =
    JNull
  | JBool bool
  | JInt int
  | JStr string
  | JArr "json list"
  | JObj "(string \<times> json) list"

text \<open>
  The exception classes the code raises or meets. Only subclasses of \<^verbatim>\<open>Exception\<close> are
  modelled: they are what \<^verbatim>\<open>except Exception\<close> catches. An error is a class with its
  message; the message of an exception that the interpreter raises is left empty.
\<close>

datatype exc_class =
    ValueError
  | HTTPError
  | ConnectionError
  | SSLError
  | TimeoutError
  | PyException
  | AttributeError
  | KeyError
  | TypeError
  | OverflowError
  | RequestException
  | JSONDecodeError

type_synonym error = "exc_class \<times> string"

text \<open>A request as \<^verbatim>\<open>requests.post(url, headers=headers, data=json.dumps(data))\<close>
  receives it: \<^verbatim>\<open>headers=None\<close> is \<open>None\<close>, and the body is kept as the value given to
  \<^verbatim>\<open>json.dumps\<close>.\<close>

record request =
  url :: string
  req_headers :: "(string \<times> json) list option"
  req_data :: json

text \<open>A response: \<^verbatim>\<open>status_code\<close>, \<^verbatim>\<open>text\<close>, and what \<^verbatim>\<open>response.json()\<close> does: it
  returns a value or raises.\<close>

record response =
  status_code :: int
  resp_text :: string
  json_body :: "error + json"

text \<open>What \<^verbatim>\<open>_make_request\<close> returns: the \<^verbatim>\<open>data\<close> field, or the response object when
  \<^verbatim>\<open>return_response\<close> is set.\<close>

datatype returned = Data json | Response response

text \<open>
  The effects of the client, in the order they happen: a POST, a call of
  \<^verbatim>\<open>response.json()\<close>, a file written by the export.
\<close>

datatype event =
    Post request
  | JsonParse
  | FileWrite string string

text \<open>
  The state: the attributes of the \<^verbatim>\<open>NftScanAPI\<close> object (\<^verbatim>\<open>expiration\<close> does not exist
  before the first authentication; a time is a number of microseconds since
  0001-01-01 00:00:00), then the file system and the effects so far.
\<close>

record state =
  api_url :: string
  apiKey :: string
  apiSecret :: string
  accessToken :: "json option"
  expiration :: "int option"
  headers :: "(string \<times> json) list"
  files :: "(string \<times> string) list"
  trace :: "event list"

text \<open>
  The environment: the server behind \<^verbatim>\<open>requests.post\<close>, which answers a request
  knowing the requests sent before it (or the transport raises), and the clock read by
  \<^verbatim>\<open>datetime.now()\<close>.
\<close>

record env =
  post :: "request list \<Rightarrow> request \<Rightarrow> error + response"
  now :: "request list \<Rightarrow> int"

fun sent :: "event list \<Rightarrow> request list" where
  "sent [] = []"
| "sent (Post r # es) = r # sent es"
| "sent (_ # es) = sent es"

section \<open>Python primitives\<close>

text \<open>\<^verbatim>\<open>d[k] = v\<close> on a dict: an existing key keeps its place.\<close>

fun dict_set :: "('k \<times> 'v) list \<Rightarrow> 'k \<Rightarrow> 'v \<Rightarrow> ('k \<times> 'v) list" where
  "dict_set [] k v = [(k, v)]"
| "dict_set ((k', v') # kvs) k v =
     (if k' = k then (k, v) # kvs else (k', v') # dict_set kvs k v)"

text \<open>\<^verbatim>\<open>x[k]\<close> with a string key: a dict raises KeyError on a missing key, every other
  JSON value raises TypeError, and so does a response object.\<close>

fun subscript :: "returned \<Rightarrow> string \<Rightarrow> error + json" where
  "subscript (Data (JObj kvs)) k =
     (case map_of kvs k of None \<Rightarrow> Inl (KeyError, k) | Some v \<Rightarrow> Inr v)"
| "subscript _ k = Inl (TypeError, [])"

text \<open>\<^verbatim>\<open>timedelta(seconds=x)\<close> in microseconds: an int (a bool is an int) is accepted
  when the number of days has magnitude at most 999999999.\<close>

fun timedelta_seconds :: "json \<Rightarrow> error + int" where
  "timedelta_seconds (JInt n) =
     (if \<bar>n div 86400\<bar> > 999999999 then Inl (OverflowError, [])
      else Inr (n * 1000000))"
| "timedelta_seconds (JBool b) = Inr (if b then 1000000 else 0)"
| "timedelta_seconds _ = Inl (TypeError, [])"

text \<open>\<^verbatim>\<open>datetime + timedelta\<close>: the result lies between \<^verbatim>\<open>datetime.min\<close> and
  \<^verbatim>\<open>datetime.max\<close> (3652059 days).\<close>

definition datetime_add :: "int \<Rightarrow> int \<Rightarrow> error + int" where
  "datetime_add t d =
     (if 0 \<le> t + d \<and> t + d < 3652059 * 86400 * 1000000 then Inr (t + d)
      else Inl (OverflowError, []))"

section \<open>Parameter validation\<close>

text \<open>
  The decorators come from the package \<^verbatim>\<open>parameters_validation\<close>: \<^verbatim>\<open>validate_parameters\<close>
  runs the validations of the annotated parameters in the order of the signature, before
  the body, and the first that fails raises. \<^verbatim>\<open>non_blank\<close> raises ValueError when
  \<^verbatim>\<open>str.strip\<close> leaves nothing, \<^verbatim>\<open>non_negative\<close> when the number is below zero.
  The message names the parameter with the type given to the validation, which is
  \<^verbatim>\<open>str\<close> for every \<^verbatim>\<open>non_blank\<close> and \<^verbatim>\<open>int\<close> for every \<^verbatim>\<open>non_negative\<close> of the source.
  A validation gives \<open>Some\<close> error when it raises. The model passes every argument
  explicitly, with the type of its annotation.
\<close>

definition is_space :: "char \<Rightarrow> bool" where
  "is_space c = ((of_char c :: nat) \<in>
     {9, 10, 11, 12, 13, 28, 29, 30, 31, 32, 133, 160})"

definition blank :: "string \<Rightarrow> bool" where
  "blank s = list_all is_space s"

definition non_blank :: "string \<Rightarrow> string \<Rightarrow> error option" where
  "non_blank string arg_name =
     (if blank string
      then Some (ValueError, ''Parameter `'' @ arg_name @ '' <str>` cannot be blank nor empty'')
      else None)"

definition non_negative :: "int \<Rightarrow> string \<Rightarrow> error option" where
  "non_negative number arg_name =
     (if number < 0
      then Some (ValueError, ''Parameter `'' @ arg_name @ '' <int>` cannot be negative'')
      else None)"

definition erc_valid :: "string \<Rightarrow> error option" where
  \<open>erc_valid erc =
     (if erc \<notin> set [''erc721'', ''erc1155'']
      then Some (ValueError, ''erc must be one of "erc721" or "erc1155"'')
      else None)\<close>

fun validate_parameters :: "error option list \<Rightarrow> error option" where
  "validate_parameters [] = None"
| "validate_parameters (None # vs) = validate_parameters vs"
| "validate_parameters (Some e # vs) = Some e"

section \<open>Export helpers\<close>

text \<open>
  Modelled from the spec: the module \<^verbatim>\<open>nftscan/utils.py\<close> (\<^verbatim>\<open>force_encoded_json\<close>,
  \<^verbatim>\<open>export_file\<close>) is not among the sources. The spec has the export serialise the
  \<^verbatim>\<open>data\<close> payload as JSON and write it under the given name, overwriting what is there.
  The serialisation is that of \<^verbatim>\<open>json.dumps\<close> with its defaults: separators
  \<^verbatim>\<open>", "\<close> and \<^verbatim>\<open>": "\<close>, and every character outside the printable ASCII range
  escaped.
\<close>

definition hex_digit :: "nat \<Rightarrow> char" where
  "hex_digit n = ''0123456789abcdef'' ! (n mod 16)"

definition escape_char :: "char \<Rightarrow> string" where
  \<open>escape_char c =
     (if c = CHR 0x22 then [CHR 0x5C, CHR 0x22]
      else if c = CHR 0x5C then [CHR 0x5C, CHR 0x5C]
      else if c = CHR 0x0A then [CHR 0x5C, CHR ''n'']
      else if c = CHR 0x0D then [CHR 0x5C, CHR ''r'']
      else if c = CHR 0x09 then [CHR 0x5C, CHR ''t'']
      else if c = CHR 0x08 then [CHR 0x5C, CHR ''b'']
      else if c = CHR 0x0C then [CHR 0x5C, CHR ''f'']
      else if 32 \<le> (of_char c :: nat) \<and> (of_char c :: nat) \<le> 126 then [c]
      else [CHR 0x5C, CHR ''u'', CHR ''0'', CHR ''0'',
            hex_digit (of_char c div 16), hex_digit (of_char c mod 16)])\<close>

definition dumps_str :: "string \<Rightarrow> string" where
  "dumps_str s = [CHR 0x22] @ concat (map escape_char s) @ [CHR 0x22]"

fun dumps_nat :: "nat \<Rightarrow> string" where
  "dumps_nat n =
     (if n < 10 then [hex_digit n] else dumps_nat (n div 10) @ [hex_digit (n mod 10)])"

definition dumps_int :: "int \<Rightarrow> string" where
  "dumps_int i = (if i < 0 then CHR ''-'' # dumps_nat (nat (- i)) else dumps_nat (nat i))"

fun json_dumps :: "json \<Rightarrow> string"
  and dumps_elems :: "json list \<Rightarrow> string"
  and dumps_items :: "(string \<times> json) list \<Rightarrow> string" where
  "json_dumps JNull = ''null''"
| "json_dumps (JBool b) = (if b then ''true'' else ''false'')"
| "json_dumps (JInt i) = dumps_int i"
| "json_dumps (JStr s) = dumps_str s"
| "json_dumps (JArr xs) = ''['' @ dumps_elems xs @ '']''"
| "json_dumps (JObj kvs) = ''{'' @ dumps_items kvs @ ''}''"
| "dumps_elems [] = []"
| "dumps_elems [x] = json_dumps x"
| "dumps_elems (x # y # ys) = json_dumps x @ '', '' @ dumps_elems (y # ys)"
| "dumps_items [] = []"
| "dumps_items [(k, v)] = dumps_str k @ '': '' @ json_dumps v"
| "dumps_items ((k, v) # kv # kvs) =
     dumps_str k @ '': '' @ json_dumps v @ '', '' @ dumps_items (kv # kvs)"

definition force_encoded_json :: "json \<Rightarrow> string" where
  "force_encoded_json data = json_dumps data"

definition export_file :: "string \<Rightarrow> string \<Rightarrow> state \<Rightarrow> state" where
  "export_file content file_name s =
     s\<lparr>files := dict_set (files s) file_name content,
       trace := trace s @ [FileWrite file_name content]\<rparr>"

section \<open>Reading an exported file\<close>

text \<open>
  Modelled from the spec: the reader of an exported file is not part of the sources. The
  spec has the contents of the file parsed; the parser is a JSON parser in the manner of
  \<^verbatim>\<open>json.loads\<close>. It skips white space around values and separators, refuses control
  characters in strings, leading zeros and trailing commas, decodes the escapes of code
  points up to 255, and builds a dict in which the last value of a repeated key wins.
  A number with a fraction or an exponent is outside the model and is refused.
  The recursion is on a fuel that the length of the input bounds.
\<close>

definition is_digit :: "char \<Rightarrow> bool" where
  "is_digit c = (48 \<le> (of_char c :: nat) \<and> (of_char c :: nat) \<le> 57)"

definition loads_nat :: "string \<Rightarrow> nat" where
  "loads_nat ds = foldl (\<lambda>a c. 10 * a + (of_char c - 48)) 0 ds"

definition loads_number :: "string \<Rightarrow> (json \<times> string) option" where
  "loads_number cs =
     (let neg = (cs \<noteq> [] \<and> hd cs = CHR ''-'');
          ds = (if neg then tl cs else cs);
          digs = takeWhile is_digit ds;
          rest = dropWhile is_digit ds
      in if digs = [] then None
         else if hd digs = CHR ''0'' \<and> length digs > 1 then None
         else if rest \<noteq> [] \<and> hd rest \<in> set ''.eE'' then None
         else Some (JInt (if neg then - int (loads_nat digs) else int (loads_nat digs)), rest))"

definition hex_value :: "char \<Rightarrow> nat option" where
  "hex_value c =
     (let n = (of_char c :: nat)
      in if 48 \<le> n \<and> n \<le> 57 then Some (n - 48)
         else if 97 \<le> n \<and> n \<le> 102 then Some (n - 87)
         else if 65 \<le> n \<and> n \<le> 70 then Some (n - 55)
         else None)"

definition unescape :: "char \<Rightarrow> char option" where
  "unescape c =
     (if c = CHR 0x22 then Some (CHR 0x22)
      else if c = CHR 0x5C then Some (CHR 0x5C)
      else if c = CHR ''/'' then Some (CHR ''/'')
      else if c = CHR ''n'' then Some (CHR 0x0A)
      else if c = CHR ''r'' then Some (CHR 0x0D)
      else if c = CHR ''t'' then Some (CHR 0x09)
      else if c = CHR ''b'' then Some (CHR 0x08)
      else if c = CHR ''f'' then Some (CHR 0x0C)
      else None)"

definition hex4 :: "char \<Rightarrow> char \<Rightarrow> char \<Rightarrow> char \<Rightarrow> nat option" where
  "hex4 a b c d =
     (case (hex_value a, hex_value b, hex_value c, hex_value d) of
        (Some w, Some x, Some y, Some z) \<Rightarrow> Some (((w * 16 + x) * 16 + y) * 16 + z)
      | _ \<Rightarrow> None)"

fun loads_chars :: "string \<Rightarrow> (string \<times> string) option" where
  "loads_chars [] = None"
| "loads_chars (c # cs) =
     (if c = CHR 0x22 then Some ([], cs)
      else if c = CHR 0x5C then
        (case cs of
           [] \<Rightarrow> None
         | e # cs' \<Rightarrow>
             if e = CHR ''u'' then
               (case cs' of
                  w # x # y # z # cs'' \<Rightarrow>
                    (case hex4 w x y z of
                       None \<Rightarrow> None
                     | Some n \<Rightarrow>
                         if n < 256 then map_option (apfst ((#) (char_of n))) (loads_chars cs'')
                         else None)
                | _ \<Rightarrow> None)
             else
               (case unescape e of
                  None \<Rightarrow> None
                | Some x \<Rightarrow> map_option (apfst ((#) x)) (loads_chars cs')))
      else if (of_char c :: nat) < 32 then None
      else map_option (apfst ((#) c)) (loads_chars cs))"

definition is_ws :: "char \<Rightarrow> bool" where
  "is_ws c = (c \<in> set [CHR 0x20, CHR 0x09, CHR 0x0A, CHR 0x0D])"

definition skip_ws :: "string \<Rightarrow> string" where
  "skip_ws cs = dropWhile is_ws cs"

definition dict :: "('k \<times> 'v) list \<Rightarrow> ('k \<times> 'v) list" where
  "dict ps = foldl (\<lambda>d (k, v). dict_set d k v) [] ps"

fun loads_value :: "nat \<Rightarrow> string \<Rightarrow> (json \<times> string) option"
  and loads_elems :: "nat \<Rightarrow> string \<Rightarrow> (json list \<times> string) option"
  and loads_items :: "nat \<Rightarrow> string \<Rightarrow> ((string \<times> json) list \<times> string) option" where
  "loads_value 0 cs = None"
| "loads_value (Suc n) cs =
     (case skip_ws cs of
        [] \<Rightarrow> None
      | c # r \<Rightarrow>
          if c = CHR ''n'' then (if take 3 r = ''ull'' then Some (JNull, drop 3 r) else None)
          else if c = CHR ''t'' then
            (if take 3 r = ''rue'' then Some (JBool True, drop 3 r) else None)
          else if c = CHR ''f'' then
            (if take 4 r = ''alse'' then Some (JBool False, drop 4 r) else None)
          else if c = CHR 0x22 then map_option (apfst JStr) (loads_chars r)
          else if c = CHR ''['' then
            (case skip_ws r of
               [] \<Rightarrow> None
             | c' # r' \<Rightarrow>
                 if c' = CHR '']'' then Some (JArr [], r')
                 else map_option (apfst JArr) (loads_elems n r))
          else if c = CHR ''{'' then
            (case skip_ws r of
               [] \<Rightarrow> None
             | c' # r' \<Rightarrow>
                 if c' = CHR ''}'' then Some (JObj [], r')
                 else map_option (apfst (\<lambda>ps. JObj (dict ps))) (loads_items n r))
          else loads_number (c # r))"
| "loads_elems 0 cs = None"
| "loads_elems (Suc n) cs =
     (case loads_value n cs of
        None \<Rightarrow> None
      | Some (v, r) \<Rightarrow>
          (case skip_ws r of
             [] \<Rightarrow> None
           | c # r' \<Rightarrow>
               if c = CHR '','' then map_option (apfst ((#) v)) (loads_elems n r')
               else if c = CHR '']'' then Some ([v], r')
               else None))"
| "loads_items 0 cs = None"
| "loads_items (Suc n) cs =
     (case skip_ws cs of
        [] \<Rightarrow> None
      | q # r \<Rightarrow>
          if q \<noteq> CHR 0x22 then None
          else
            (case loads_chars r of
               None \<Rightarrow> None
             | Some (k, r1) \<Rightarrow>
                 (case skip_ws r1 of
                    [] \<Rightarrow> None
                  | c # r2 \<Rightarrow>
                      if c \<noteq> CHR '':'' then None
                      else
                        (case loads_value n r2 of
                           None \<Rightarrow> None
                         | Some (v, r3) \<Rightarrow>
                             (case skip_ws r3 of
                                [] \<Rightarrow> None
                              | c' # r4 \<Rightarrow>
                                  if c' = CHR '','' then
                                    map_option (apfst ((#) (k, v))) (loads_items n r4)
                                  else if c' = CHR ''}'' then Some ([(k, v)], r4)
                                  else None)))))"

definition json_loads :: "string \<Rightarrow> json option" where
  "json_loads s =
     (case loads_value (Suc (length s)) s of
        None \<Rightarrow> None
      | Some (v, r) \<Rightarrow> if skip_ws r = [] then Some v else None)"

text \<open>A JSON value as Python holds it: the keys of every dict are distinct.\<close>

fun wf_json :: "json \<Rightarrow> bool"
  and wf_elems :: "json list \<Rightarrow> bool"
  and wf_items :: "(string \<times> json) list \<Rightarrow> bool" where
  "wf_json (JArr xs) = wf_elems xs"
| "wf_json (JObj kvs) = (distinct (map fst kvs) \<and> wf_items kvs)"
| "wf_json _ = True"
| "wf_elems [] = True"
| "wf_elems (x # xs) = (wf_json x \<and> wf_elems xs)"
| "wf_items [] = True"
| "wf_items ((k, v) # kvs) = (wf_json v \<and> wf_items kvs)"

text \<open>The fuel that the parser needs for the text of a value.\<close>

fun depth :: "json \<Rightarrow> nat"
  and depth_elems :: "json list \<Rightarrow> nat"
  and depth_items :: "(string \<times> json) list \<Rightarrow> nat" where
  "depth (JArr xs) = Suc (depth_elems xs)"
| "depth (JObj kvs) = Suc (depth_items kvs)"
| "depth _ = 1"
| "depth_elems [] = 0"
| "depth_elems (x # xs) = Suc (max (depth x) (depth_elems xs))"
| "depth_items [] = 0"
| "depth_items ((k, v) # kvs) = Suc (max (depth v) (depth_items kvs))"

text \<open>What may follow a value in a text: nothing, a comma or a closing bracket.\<close>

definition follows :: "string \<Rightarrow> bool" where
  "follows rest = (rest = [] \<or> hd rest \<in> set '',]}'')"

text \<open>The first character of a value: no white space, comma or closing bracket.\<close>

definition opener :: "char \<Rightarrow> bool" where
  "opener c = (\<not> is_ws c \<and> c \<notin> set '',]}'')"

section \<open>The client\<close>

definition MAX_PAGE_SIZE :: int where
  "MAX_PAGE_SIZE = 100"

text \<open>\<^verbatim>\<open>__init__\<close>, given the file system the client starts in.\<close>

definition init ::
  "string \<Rightarrow> string \<Rightarrow> string \<Rightarrow> string \<Rightarrow> (string \<times> string) list \<Rightarrow> error + state" where
  "init key secret base_url version fs =
     (case validate_parameters [non_blank key ''apiKey'', non_blank secret ''apiSecret''] of
        Some e \<Rightarrow> Inl e
      | None \<Rightarrow>
          Inr \<lparr>api_url = base_url @ ''/'' @ version,
               apiKey = key,
               apiSecret = secret,
               accessToken = None,
               expiration = None,
               headers = [(''Content-Type'', JStr ''application/json'')],
               files = fs,
               trace = []\<rparr>)"

text \<open>
  \<^verbatim>\<open>_make_request\<close>. The five status codes are tested on the transport status first,
  without a call of \<^verbatim>\<open>response.json()\<close>, then on the \<^verbatim>\<open>code\<close> field of the body.
  \<^verbatim>\<open>json_response.keys()\<close> raises AttributeError when the body is not a dict.
\<close>

definition make_request ::
  "env \<Rightarrow> state \<Rightarrow> string \<Rightarrow> (string \<times> json) list option \<Rightarrow> json \<Rightarrow> string \<Rightarrow> bool
     \<Rightarrow> (error + returned) \<times> state" where
  "make_request e s u hdrs data export_file_name return_response =
     (case validate_parameters [non_blank u ''url''] of
        Some err \<Rightarrow> (Inl err, s)
      | None \<Rightarrow>
          let req = \<lparr>url = u, req_headers = hdrs, req_data = data\<rparr>;
              s1 = s\<lparr>trace := trace s @ [Post req]\<rparr>
          in (case post e (sent (trace s)) req of
               Inl err \<Rightarrow> (Inl err, s1)
             | Inr response \<Rightarrow>
                 if status_code response = 400 then (Inl (ValueError, resp_text response), s1)
                 else if status_code response = 401 then (Inl (HTTPError, resp_text response), s1)
                 else if status_code response = 403
                   then (Inl (ConnectionError, ''The server blocked access.''), s1)
                 else if status_code response = 495
                   then (Inl (SSLError, ''SSL certificate error''), s1)
                 else if status_code response = 504
                   then (Inl (TimeoutError, ''The server reported a gateway time-out error.''), s1)
                 else
                   let s2 = s1\<lparr>trace := trace s1 @ [JsonParse]\<rparr>
                   in (case json_body response of
                        Inl err \<Rightarrow> (Inl err, s2)
                      | Inr (JObj json_response) \<Rightarrow>
                          (case map_of json_response ''code'' of
                             None \<Rightarrow>
                               (Inl (PyException,
                                  ''Request failed, no HTTP status code in JSON response''), s2)
                           | Some code \<Rightarrow>
                               (case map_of json_response ''data'' of
                                  None \<Rightarrow>
                                    (Inl (PyException,
                                       ''Request failed, no data in JSON response''), s2)
                                | Some payload \<Rightarrow>
                                    if code = JInt 400
                                      then (Inl (ValueError, resp_text response), s2)
                                    else if code = JInt 401
                                      then (Inl (HTTPError, resp_text response), s2)
                                    else if code = JInt 403
                                      then (Inl (ConnectionError, ''The server blocked access.''), s2)
                                    else if code = JInt 495
                                      then (Inl (SSLError, ''SSL certificate error''), s2)
                                    else if code = JInt 504
                                      then (Inl (TimeoutError,
                                        ''The server reported a gateway time-out error.''), s2)
                                    else
                                      let s3 = (if export_file_name \<noteq> []
                                                then export_file (force_encoded_json payload)
                                                       export_file_name s2
                                                else s2)
                                      in if return_response then (Inr (Response response), s3)
                                         else (Inr (Data payload), s3)))
                      | Inr _ \<Rightarrow> (Inl (AttributeError, []), s2))))"

text \<open>
  \<^verbatim>\<open>_authenticate\<close>: a request to the token URL with no headers and no data. The token
  is stored before the expiry is computed, and the header is set last.
\<close>

definition auth_url :: "state \<Rightarrow> string" where
  "auth_url s =
     ''https://restapi.nftscan.com/gw/token?apiKey='' @ apiKey s @ ''&apiSecret='' @ apiSecret s"

definition authenticate :: "env \<Rightarrow> state \<Rightarrow> (error + unit) \<times> state" where
  "authenticate e s =
     (case make_request e s (auth_url s) None JNull [] False of
        (Inl err, s1) \<Rightarrow> (Inl err, s1)
      | (Inr result, s1) \<Rightarrow>
          (case subscript result ''accessToken'' of
             Inl err \<Rightarrow> (Inl err, s1)
           | Inr tok \<Rightarrow>
               let s2 = s1\<lparr>accessToken := Some tok\<rparr>
               in (case subscript result ''expiration'' of
                    Inl err \<Rightarrow> (Inl err, s2)
                  | Inr secs \<Rightarrow>
                      (case timedelta_seconds secs of
                         Inl err \<Rightarrow> (Inl err, s2)
                       | Inr d \<Rightarrow>
                           (case datetime_add (now e (sent (trace s2))) d of
                              Inl err \<Rightarrow> (Inl err, s2)
                            | Inr t \<Rightarrow>
                                (Inr (),
                                 s2\<lparr>expiration := Some t,
                                    headers := dict_set (headers s2) ''Access-Token'' tok\<rparr>))))))"

text \<open>\<^verbatim>\<open>_api_request\<close>: any exception of the first attempt leads to
  \<^verbatim>\<open>_authenticate\<close> and a second attempt with the headers as they are then.\<close>

definition api_request ::
  "env \<Rightarrow> state \<Rightarrow> string \<Rightarrow> json \<Rightarrow> string \<Rightarrow> bool \<Rightarrow> (error + returned) \<times> state" where
  "api_request e s endpoint data export_file_name return_response =
     (case validate_parameters [non_blank endpoint ''endpoint''] of
        Some err \<Rightarrow> (Inl err, s)
      | None \<Rightarrow>
          let u = api_url s @ ''/'' @ endpoint
          in (case make_request e s u (Some (headers s)) data export_file_name return_response of
               (Inr result, s1) \<Rightarrow> (Inr result, s1)
             | (Inl err, s1) \<Rightarrow>
                 (case authenticate e s1 of
                    (Inl err', s2) \<Rightarrow> (Inl err', s2)
                  | (Inr _, s2) \<Rightarrow>
                      make_request e s2 u (Some (headers s2)) data export_file_name
                        return_response)))"

section \<open>The domain methods\<close>

text \<open>Each method validates its annotated parameters, builds the body and calls
  \<^verbatim>\<open>_api_request\<close> with \<^verbatim>\<open>return_response\<close> left at False.\<close>

definition getAllNftByUserAddress ::
  "env \<Rightarrow> state \<Rightarrow> string \<Rightarrow> string \<Rightarrow> int \<Rightarrow> int \<Rightarrow> string \<Rightarrow> (error + returned) \<times> state" where
  "getAllNftByUserAddress e s erc user_address page_index page_size export_file_name =
     (case validate_parameters [erc_valid erc, non_negative page_index ''page_index''] of
        Some err \<Rightarrow> (Inl err, s)
      | None \<Rightarrow>
          api_request e s ''getAllNftByUserAddress''
            (JObj [(''erc'', JStr erc),
                   (''walletType'', JInt 3),
                   (''page_index'', JInt page_index),
                   (''page_size'', JInt (min page_size MAX_PAGE_SIZE)),
                   (''user_address'', JStr user_address)])
            export_file_name False)"

definition getGroupByNftContract ::
  "env \<Rightarrow> state \<Rightarrow> string \<Rightarrow> string \<Rightarrow> string \<Rightarrow> (error + returned) \<times> state" where
  "getGroupByNftContract e s erc user_address export_file_name =
     (case validate_parameters [erc_valid erc] of
        Some err \<Rightarrow> (Inl err, s)
      | None \<Rightarrow>
          api_request e s ''getGroupByNftContract''
            (JObj [(''erc'', JStr erc), (''user_address'', JStr user_address)])
            export_file_name False)"

definition getMintByUserAddress ::
  "env \<Rightarrow> state \<Rightarrow> int \<Rightarrow> int \<Rightarrow> string \<Rightarrow> string \<Rightarrow> (error + returned) \<times> state" where
  "getMintByUserAddress e s page_index page_size user_address export_file_name =
     (case validate_parameters
             [non_negative page_index ''page_index'', non_negative page_size ''page_size'',
              non_blank user_address ''user_address''] of
        Some err \<Rightarrow> (Inl err, s)
      | None \<Rightarrow>
          api_request e s ''getMintByUserAddress''
            (JObj [(''page_index'', JInt page_index),
                   (''page_size'', JInt page_size),
                   (''user_address'', JStr user_address)])
            export_file_name False)"

definition getMintByUserAddressAndNftAddress ::
  "env \<Rightarrow> state \<Rightarrow> string \<Rightarrow> int \<Rightarrow> int \<Rightarrow> string \<Rightarrow> string \<Rightarrow> (error + returned) \<times> state" where
  "getMintByUserAddressAndNftAddress e s nft_address page_index page_size user_address
      export_file_name =
     (case validate_parameters
             [non_blank nft_address ''nft_address'', non_negative page_index ''page_index'',
              non_negative page_size ''page_size'', non_blank user_address ''user_address''] of
        Some err \<Rightarrow> (Inl err, s)
      | None \<Rightarrow>
          api_request e s ''getMintByUserAddressAndNftAddress''
            (JObj [(''nft_address'', JStr nft_address),
                   (''page_index'', JInt page_index),
                   (''page_size'', JInt page_size),
                   (''user_address'', JStr user_address)])
            export_file_name False)"

definition getNFTRecordByContract ::
  "env \<Rightarrow> state \<Rightarrow> string \<Rightarrow> int \<Rightarrow> int \<Rightarrow> string \<Rightarrow> (error + returned) \<times> state" where
  "getNFTRecordByContract e s nft_address page_index page_size export_file_name =
     (case validate_parameters
             [non_blank nft_address ''nft_address'', non_negative page_index ''page_index'',
              non_negative page_size ''page_size''] of
        Some err \<Rightarrow> (Inl err, s)
      | None \<Rightarrow>
          api_request e s ''getNFTRecordByContract''
            (JObj [(''nft_address'', JStr nft_address),
                   (''page_index'', JInt page_index),
                   (''page_size'', JInt page_size)])
            export_file_name False)"

definition getNftByContractAndUserAddress ::
  "env \<Rightarrow> state \<Rightarrow> string \<Rightarrow> int \<Rightarrow> int \<Rightarrow> string \<Rightarrow> string \<Rightarrow> (error + returned) \<times> state" where
  "getNftByContractAndUserAddress e s nft_address page_index page_size user_address
      export_file_name =
     (case validate_parameters
             [non_blank nft_address ''nft_address'', non_negative page_index ''page_index'',
              non_negative page_size ''page_size'', non_blank user_address ''user_address''] of
        Some err \<Rightarrow> (Inl err, s)
      | None \<Rightarrow>
          api_request e s ''getNftByContractAndUserAddress''
            (JObj [(''nft_address'', JStr nft_address),
                   (''page_index'', JInt page_index),
                   (''page_size'', JInt page_size),
                   (''user_address'', JStr user_address)])
            export_file_name False)"

definition getRecordByUserAddressAndTokenId ::
  "env \<Rightarrow> state \<Rightarrow> string \<Rightarrow> int \<Rightarrow> int \<Rightarrow> string \<Rightarrow> string \<Rightarrow> string
     \<Rightarrow> (error + returned) \<times> state" where
  "getRecordByUserAddressAndTokenId e s nft_address page_index page_size token_id user_address
      export_file_name =
     (case validate_parameters
             [non_blank nft_address ''nft_address'', non_negative page_index ''page_index'',
              non_negative page_size ''page_size'', non_blank token_id ''token_id'',
              non_blank user_address ''user_address''] of
        Some err \<Rightarrow> (Inl err, s)
      | None \<Rightarrow>
          api_request e s ''getRecordByUserAddressAndTokenId''
            (JObj [(''nft_address'', JStr nft_address),
                   (''page_index'', JInt page_index),
                   (''page_size'', JInt page_size),
                   (''token_id'', JStr token_id),
                   (''user_address'', JStr user_address)])
            export_file_name False)"

definition getSingleNft ::
  "env \<Rightarrow> state \<Rightarrow> string \<Rightarrow> string \<Rightarrow> string \<Rightarrow> (error + returned) \<times> state" where
  "getSingleNft e s nft_address token_id export_file_name =
     (case validate_parameters
             [non_blank nft_address ''nft_address'', non_blank token_id ''token_id''] of
        Some err \<Rightarrow> (Inl err, s)
      | None \<Rightarrow>
          api_request e s ''getSingleNft''
            (JObj [(''nft_address'', JStr nft_address), (''token_id'', JStr token_id)])
            export_file_name False)"

definition getSingleNftRecord ::
  "env \<Rightarrow> state \<Rightarrow> string \<Rightarrow> int \<Rightarrow> int \<Rightarrow> string \<Rightarrow> string \<Rightarrow> (error + returned) \<times> state" where
  "getSingleNftRecord e s nft_address page_index page_size token_id export_file_name =
     (case validate_parameters
             [non_blank nft_address ''nft_address'', non_negative page_index ''page_index'',
              non_negative page_size ''page_size'', non_blank token_id ''token_id''] of
        Some err \<Rightarrow> (Inl err, s)
      | None \<Rightarrow>
          api_request e s ''getSingleNftRecord''
            (JObj [(''nft_address'', JStr nft_address),
                   (''page_index'', JInt page_index),
                   (''page_size'', JInt page_size),
                   (''token_id'', JStr token_id)])
            export_file_name False)"

text \<open>\<^verbatim>\<open>getStates\<close> takes any value as \<^verbatim>\<open>nft_address\<close>: its annotation is
  \<^verbatim>\<open>None\<close>, which validates nothing.\<close>

definition getStates ::
  "env \<Rightarrow> state \<Rightarrow> json \<Rightarrow> string \<Rightarrow> (error + returned) \<times> state" where
  "getStates e s nft_address export_file_name =
     api_request e s ''getStates'' (JObj [(''nft_address'', nft_address)])
       export_file_name False"

definition getUserRecordByContract ::
  "env \<Rightarrow> state \<Rightarrow> string \<Rightarrow> int \<Rightarrow> int \<Rightarrow> string \<Rightarrow> string \<Rightarrow> (error + returned) \<times> state" where
  "getUserRecordByContract e s nft_address page_index page_size user_address export_file_name =
     (case validate_parameters
             [non_blank nft_address ''nft_address'', non_negative page_index ''page_index'',
              non_negative page_size ''page_size'', non_blank user_address ''user_address''] of
        Some err \<Rightarrow> (Inl err, s)
      | None \<Rightarrow>
          api_request e s ''getUserRecordByContract''
            (JObj [(''nft_address'', JStr nft_address),
                   (''page_index'', JInt page_index),
                   (''page_size'', JInt page_size),
                   (''user_address'', JStr user_address)])
            export_file_name False)"

definition getUserRecordByUserAddress ::
  "env \<Rightarrow> state \<Rightarrow> int \<Rightarrow> int \<Rightarrow> string \<Rightarrow> string \<Rightarrow> (error + returned) \<times> state" where
  "getUserRecordByUserAddress e s page_index page_size user_address export_file_name =
     (case validate_parameters
             [non_negative page_index ''page_index'', non_negative page_size ''page_size'',
              non_blank user_address ''user_address''] of
        Some err \<Rightarrow> (Inl err, s)
      | None \<Rightarrow>
          api_request e s ''getUserRecordByUserAddress''
            (JObj [(''page_index'', JInt page_index),
                   (''page_size'', JInt page_size),
                   (''user_address'', JStr user_address)])
            export_file_name False)"

section \<open>Reading a run\<close>


text \<open>\<^verbatim>\<open>k in j.keys()\<close> for a dict; no other JSON value has a field.\<close>

definition has_field :: "json \<Rightarrow> string \<Rightarrow> bool" where
  "has_field j k = (case j of JObj kvs \<Rightarrow> map_of kvs k \<noteq> None | _ \<Rightarrow> False)"

text \<open>
  The calls a user of the client can make, and a run of them: an exception of a call
  reaches the user, who may go on with the same client.
\<close>

datatype call =
    GetAllNftByUserAddress string string int int string
  | GetGroupByNftContract string string string
  | GetMintByUserAddress int int string string
  | GetMintByUserAddressAndNftAddress string int int string string
  | GetNFTRecordByContract string int int string
  | GetNftByContractAndUserAddress string int int string string
  | GetRecordByUserAddressAndTokenId string int int string string string
  | GetSingleNft string string string
  | GetSingleNftRecord string int int string string
  | GetStates json string
  | GetUserRecordByContract string int int string string
  | GetUserRecordByUserAddress int int string string
  | ApiRequest string json string bool
  | Authenticate

fun perform :: "env \<Rightarrow> state \<Rightarrow> call \<Rightarrow> state" where
  "perform e s (GetAllNftByUserAddress erc ua i n f) = snd (getAllNftByUserAddress e s erc ua i n f)"
| "perform e s (GetGroupByNftContract erc ua f) = snd (getGroupByNftContract e s erc ua f)"
| "perform e s (GetMintByUserAddress i n ua f) = snd (getMintByUserAddress e s i n ua f)"
| "perform e s (GetMintByUserAddressAndNftAddress na i n ua f) =
     snd (getMintByUserAddressAndNftAddress e s na i n ua f)"
| "perform e s (GetNFTRecordByContract na i n f) = snd (getNFTRecordByContract e s na i n f)"
| "perform e s (GetNftByContractAndUserAddress na i n ua f) =
     snd (getNftByContractAndUserAddress e s na i n ua f)"
| "perform e s (GetRecordByUserAddressAndTokenId na i n t ua f) =
     snd (getRecordByUserAddressAndTokenId e s na i n t ua f)"
| "perform e s (GetSingleNft na t f) = snd (getSingleNft e s na t f)"
| "perform e s (GetSingleNftRecord na i n t f) = snd (getSingleNftRecord e s na i n t f)"
| "perform e s (GetStates na f) = snd (getStates e s na f)"
| "perform e s (GetUserRecordByContract na i n ua f) =
     snd (getUserRecordByContract e s na i n ua f)"
| "perform e s (GetUserRecordByUserAddress i n ua f) =
     snd (getUserRecordByUserAddress e s i n ua f)"
| "perform e s (ApiRequest ep d f rr) = snd (api_request e s ep d f rr)"
| "perform e s Authenticate = snd (authenticate e s)"

fun run :: "env \<Rightarrow> state \<Rightarrow> call list \<Rightarrow> state" where
  "run e s [] = s"
| "run e s (c # cs) = run e (perform e s c) cs"

text \<open>
  The token that an authentication exchange obtains, read off the answer of the server
  alone: the exchange completes when the answer has a status outside the five error
  statuses and a body in the envelope of the API, with a \<^verbatim>\<open>code\<close> outside the five and a
  \<^verbatim>\<open>data\<close> dict that holds \<^verbatim>\<open>accessToken\<close> and an \<^verbatim>\<open>expiration\<close> from which the expiry
  can be computed at the time of the exchange. Any other answer obtains no token.
\<close>

definition granted :: "env \<Rightarrow> request list \<Rightarrow> request \<Rightarrow> json option" where
  "granted e h q =
     (case post e h q of
        Inl _ \<Rightarrow> None
      | Inr r \<Rightarrow>
          if status_code r \<in> {400, 401, 403, 495, 504} then None
          else
            (case json_body r of
               Inr (JObj kvs) \<Rightarrow>
                 (case (map_of kvs ''code'', map_of kvs ''data'') of
                    (Some c, Some (JObj d)) \<Rightarrow>
                      if c \<in> {JInt 400, JInt 401, JInt 403, JInt 495, JInt 504} then None
                      else
                        (case (map_of d ''accessToken'', map_of d ''expiration'') of
                           (Some tok, Some secs) \<Rightarrow>
                             (case timedelta_seconds secs of
                                Inl _ \<Rightarrow> None
                              | Inr dl \<Rightarrow>
                                  (case datetime_add (now e (h @ [q])) dl of
                                     Inl _ \<Rightarrow> None
                                   | Inr _ \<Rightarrow> Some tok))
                         | _ \<Rightarrow> None)
                  | _ \<Rightarrow> None)
             | _ \<Rightarrow> None))"

text \<open>The token in force after one more request: an exchange that completes replaces
  it, any other request leaves it.\<close>

definition next_token :: "env \<Rightarrow> json option \<Rightarrow> request list \<Rightarrow> request \<Rightarrow> json option" where
  "next_token e t h q =
     (if req_headers q = None
      then (case granted e h q of Some tok \<Rightarrow> Some tok | None \<Rightarrow> t)
      else t)"

fun latest :: "env \<Rightarrow> json option \<Rightarrow> request list \<Rightarrow> request list \<Rightarrow> json option" where
  "latest e t h [] = t"
| "latest e t h (q # qs) = latest e (next_token e t h q) (h @ [q]) qs"

text \<open>
  Over the requests sent, in their order and with the requests before them: every
  request without headers is the authentication exchange (the token URL with key and
  secret, no data), and every request with headers has as \<^verbatim>\<open>Access-Token\<close> entry the
  token of the latest exchange that completed, and no such entry before the first one.
\<close>

fun tokens_ok ::
  "env \<Rightarrow> string \<Rightarrow> json option \<Rightarrow> request list \<Rightarrow> request list \<Rightarrow> bool" where
  "tokens_ok e a t h [] = True"
| "tokens_ok e a t h (q # qs) =
     ((case req_headers q of
         None \<Rightarrow> q = \<lparr>url = a, req_headers = None, req_data = JNull\<rparr>
       | Some hs \<Rightarrow> map_of hs ''Access-Token'' = t)
      \<and> tokens_ok e a (next_token e t h q) (h @ [q]) qs)"

text \<open>The headers of the client agree with the answers of the server so far.\<close>

definition consistent :: "env \<Rightarrow> string \<Rightarrow> state \<Rightarrow> bool" where
  "consistent e a s =
     (auth_url s = a \<and> tokens_ok e a None [] (sent (trace s))
      \<and> map_of (headers s) ''Access-Token'' = latest e None [] (sent (trace s)))"

section \<open>Concrete inputs\<close>

text \<open>A server that answers the n-th request with the n-th entry of a script and refuses
  the connection afterwards, at a fixed time of the year 2022.\<close>

definition scripted :: "(error + response) list \<Rightarrow> request list \<Rightarrow> request \<Rightarrow> error + response" where
  "scripted rs h q =
     (if length h < length rs then rs ! length h
      else Inl (RequestException, ''connection refused''))"

definition server :: "(error + response) list \<Rightarrow> env" where
  "server rs = \<lparr>post = scripted rs, now = (\<lambda>h. 63800000000000000)\<rparr>"

definition reply :: "int \<Rightarrow> string \<Rightarrow> json \<Rightarrow> response" where
  "reply st txt j = \<lparr>status_code = st, resp_text = txt, json_body = Inr j\<rparr>"

text \<open>The client \<^verbatim>\<open>NftScanAPI("key", "secret")\<close> right after its construction.\<close>

definition fresh :: state where
  "fresh =
     \<lparr>api_url = ''https://restapi.nftscan.com/api//v1'',
      apiKey = ''key'',
      apiSecret = ''secret'',
      accessToken = None,
      expiration = None,
      headers = [(''Content-Type'', JStr ''application/json'')],
      files = [],
      trace = []\<rparr>"

definition demo_url :: string where
  "demo_url = ''https://restapi.nftscan.com/api//v1/getSingleNft''"

definition demo_body :: json where
  "demo_body = JObj [(''nft_address'', JStr ''0xabc''), (''token_id'', JStr ''7'')]"

definition demo_request :: "(string \<times> json) list option \<Rightarrow> request" where
  "demo_request h = \<lparr>url = demo_url, req_headers = h, req_data = demo_body\<rparr>"

definition token_reply :: response where
  "token_reply =
     reply 200 ''token''
       (JObj [(''code'', JInt 200),
              (''data'', JObj [(''accessToken'', JStr ''tok123''), (''expiration'', JInt 3600)])])"

definition ok_reply :: response where
  "ok_reply = reply 200 ''ok'' (JObj [(''code'', JInt 200), (''data'', JStr ''nft'')])"

definition auth_request :: request where
  "auth_request =
     \<lparr>url = ''https://restapi.nftscan.com/gw/token?apiKey=key&apiSecret=secret'',
      req_headers = None, req_data = JNull\<rparr>"

definition after_first :: state where
  "after_first = fresh\<lparr>trace := [Post (demo_request (Some (headers fresh)))]\<rparr>"

definition after_auth :: state where
  "after_auth =
     after_first
       \<lparr>accessToken := Some (JStr ''tok123''),
        expiration := Some 63800003600000000,
        headers := [(''Content-Type'', JStr ''application/json''),
                    (''Access-Token'', JStr ''tok123'')],
        trace := [Post (demo_request (Some (headers fresh))), Post auth_request, JsonParse]\<rparr>"

definition retry_server :: env where
  "retry_server = server [Inr (reply 401 ''denied'' JNull), Inr token_reply, Inr ok_reply]"

definition no_auth_server :: env where
  "no_auth_server = server [Inr (reply 401 ''denied'' JNull), Inr (reply 403 ''blocked'' JNull)]"

definition keyless_server :: env where
  "keyless_server =
     server [Inl (RequestException, ''timed out''),
             Inr (reply 200 ''token''
                    (JObj [(''code'', JInt 200), (''data'', JObj [(''expiration'', JInt 3600)])]))]"

definition after_keyless :: state where
  "after_keyless =
     fresh\<lparr>trace := [Post (demo_request (Some (headers fresh))), Post auth_request, JsonParse]\<rparr>"

definition unauthorized_body :: response where
  "unauthorized_body = reply 200 ''unauthorized'' (JObj [(''code'', JInt 401), (''data'', JNull)])"

definition body401_server :: env where
  "body401_server = server [Inr unauthorized_body, Inr token_reply, Inr ok_reply]"

definition body401_only_server :: env where
  "body401_only_server = server [Inr unauthorized_body]"

text \<open>The envelope and the export target of the spec's example, with a file already
  there.\<close>

definition envelope_reply :: response where
  "envelope_reply =
     reply 200 ''envelope'' (JObj [(''code'', JInt 0), (''data'', JObj [(''foo'', JStr ''bar'')])])"

definition with_old_file :: state where
  "with_old_file = fresh\<lparr>files := [(''out.json'', ''old'')]\<rparr>"

text \<open>Servers whose exchange returns a token and does not complete.\<close>

definition stale_server :: env where
  "stale_server =
     server [Inr (reply 401 ''denied'' JNull),
             Inr (reply 200 ''token''
                    (JObj [(''code'', JInt 200), (''data'', JObj [(''accessToken'', JStr ''tok456'')])])),
             Inr ok_reply]"

definition bare_server :: env where
  "bare_server =
     server [Inr (reply 401 ''denied'' JNull),
             Inr (reply 200 ''token''
                    (JObj [(''accessToken'', JStr ''tok123''), (''expiration'', JInt 3600)])),
             Inr ok_reply]"

section \<open>Basic facts\<close>

lemmas demo_defs =
  server_def scripted_def reply_def fresh_def demo_url_def demo_body_def demo_request_def
  token_reply_def ok_reply_def auth_request_def after_first_def after_auth_def
  retry_server_def no_auth_server_def keyless_server_def after_keyless_def
  unauthorized_body_def body401_server_def body401_only_server_def stale_server_def
  bare_server_def

lemmas run_defs =
  make_request_def authenticate_def api_request_def auth_url_def non_blank_def blank_def
  is_space_def datetime_add_def export_file_def force_encoded_json_def Let_def

lemma validate_single [simp]: "validate_parameters [v] = v"
  by (cases v) simp_all

lemma non_blank_None [simp]: "\<not> blank u \<Longrightarrow> non_blank u n = None"
  by (simp add: non_blank_def)

lemma init_fresh: "init ''key'' ''secret'' ''https://restapi.nftscan.com/api/'' ''v1'' [] = Inr fresh"
  by (simp add: init_def fresh_def non_blank_def blank_def is_space_def)

lemma sent_append [simp]: "sent (xs @ ys) = sent xs @ sent ys"
  by (induction xs rule: sent.induct) simp_all

lemma blank_Cons [simp]: "blank (c # cs) = (is_space c \<and> blank cs)"
  by (simp add: blank_def)

lemma blank_append [simp]: "blank (xs @ ys) = (blank xs \<and> blank ys)"
  by (simp add: blank_def)

lemma auth_url_not_blank [simp]: "\<not> blank (auth_url s)"
  by (simp add: auth_url_def is_space_def)

lemma not_space_slash [simp]: "\<not> is_space CHR ''/''"
  by (simp add: is_space_def)

lemma endpoint_url_not_blank: "\<not> blank (a @ ''/'' @ endpoint)"
  by simp

lemma make_request_sent:
  "\<not> blank u \<Longrightarrow>
     sent (trace (snd (make_request e s u h d efn rr))) =
       sent (trace s) @ [\<lparr>url = u, req_headers = h, req_data = d\<rparr>]"
  by (simp add: make_request_def Let_def export_file_def
           split: sum.split json.split option.split)

lemma make_request_attrs:
  "make_request e s u h d efn rr = (res, s') \<Longrightarrow>
     api_url s' = api_url s \<and> apiKey s' = apiKey s \<and> apiSecret s' = apiSecret s
       \<and> headers s' = headers s \<and> accessToken s' = accessToken s"
  by (auto simp add: make_request_def Let_def export_file_def
           split: sum.splits json.splits option.splits if_splits)

lemma authenticate_sent:
  "sent (trace (snd (authenticate e s))) =
     sent (trace s) @ [\<lparr>url = auth_url s, req_headers = None, req_data = JNull\<rparr>]"
proof -
  obtain res s1 where mr: "make_request e s (auth_url s) None JNull [] False = (res, s1)"
    by (cases "make_request e s (auth_url s) None JNull [] False")
  have "sent (trace s1) = sent (trace s) @ [\<lparr>url = auth_url s, req_headers = None, req_data = JNull\<rparr>]"
    using make_request_sent [of "auth_url s" e s None JNull "[]" False] mr by simp
  then show ?thesis
    by (simp add: authenticate_def mr Let_def split: sum.split)
qed

lemma demo_url_not_blank: "\<not> blank demo_url"
  by (simp add: demo_url_def is_space_def)

lemma post_server_first:
  "post (server (Inr r # rs)) (sent (trace fresh)) q = Inr r"
  by (simp add: server_def scripted_def fresh_def)

lemma demo_endpoint_not_blank: "\<not> blank ''getSingleNft''"
  by (simp add: is_space_def)

lemma retry_first:
  "make_request retry_server fresh (api_url fresh @ ''/'' @ ''getSingleNft'')
     (Some (headers fresh)) demo_body [] False = (Inl (HTTPError, ''denied''), after_first)"
  by (simp add: demo_defs run_defs)

lemma retry_auth: "authenticate retry_server after_first = (Inr (), after_auth)"
  by (simp add: demo_defs run_defs)

lemma retry_second:
  "make_request retry_server after_auth (api_url fresh @ ''/'' @ ''getSingleNft'')
     (Some (headers after_auth)) demo_body [] False =
   (Inr (Data (JStr ''nft'')),
    after_auth\<lparr>trace := trace after_auth @ [Post (demo_request (Some (headers after_auth))), JsonParse]\<rparr>)"
  by (simp add: demo_defs run_defs)

lemma map_of_dict_set [simp]: "map_of (dict_set kvs k v) k = Some v"
  by (induction kvs k v rule: dict_set.induct) simp_all

lemma auth_url_update [simp]:
  "auth_url (s\<lparr>accessToken := x\<rparr>) = auth_url s"
  "auth_url (s\<lparr>expiration := y\<rparr>) = auth_url s"
  "auth_url (s\<lparr>headers := h\<rparr>) = auth_url s"
  "auth_url (s\<lparr>files := f\<rparr>) = auth_url s"
  "auth_url (s\<lparr>trace := t\<rparr>) = auth_url s"
  by (simp_all add: auth_url_def)

lemma latest_append [simp]:
  "latest e t h (qs @ qs') = latest e (latest e t h qs) (h @ qs) qs'"
  by (induction qs arbitrary: t h) simp_all

lemma tokens_ok_append [simp]:
  "tokens_ok e a t h (qs @ qs') =
     (tokens_ok e a t h qs \<and> tokens_ok e a (latest e t h qs) (h @ qs) qs')"
  by (induction qs arbitrary: t h) simp_all

lemma authenticate_headers:
  "headers (snd (authenticate e s)) =
     (case granted e (sent (trace s)) \<lparr>url = auth_url s, req_headers = None, req_data = JNull\<rparr> of
        Some tok \<Rightarrow> dict_set (headers s) ''Access-Token'' tok
      | None \<Rightarrow> headers s)"
proof -
  have nb: "non_blank (auth_url s) ''url'' = None"
    by simp
  show ?thesis
    unfolding authenticate_def make_request_def granted_def Let_def
    by (simp add: nb split: sum.split json.split option.split returned.split)
qed

lemma authenticate_auth_url: "auth_url (snd (authenticate e s)) = auth_url s"
proof -
  obtain res s1 where mr: "make_request e s (auth_url s) None JNull [] False = (res, s1)"
    by (cases "make_request e s (auth_url s) None JNull [] False")
  have "auth_url s1 = auth_url s"
    using make_request_attrs [OF mr] by (simp add: auth_url_def)
  then show ?thesis
    by (simp add: authenticate_def mr Let_def split: sum.split)
qed

lemma make_request_consistent:
  assumes "consistent e a s"
  shows "consistent e a (snd (make_request e s u (Some (headers s)) d efn rr))"
proof (cases "blank u")
  case True
  then show ?thesis
    using assms by (simp add: make_request_def non_blank_def)
next
  case False
  obtain res s1 where mr: "make_request e s u (Some (headers s)) d efn rr = (res, s1)"
    by (cases "make_request e s u (Some (headers s)) d efn rr")
  have t: "sent (trace s1) =
             sent (trace s) @ [\<lparr>url = u, req_headers = Some (headers s), req_data = d\<rparr>]"
    using make_request_sent [OF False, of e s "Some (headers s)" d efn rr] mr by simp
  have a: "auth_url s1 = auth_url s" and h: "headers s1 = headers s"
    using make_request_attrs [OF mr] by (simp_all add: auth_url_def)
  show ?thesis
    using assms by (simp add: consistent_def mr t a h next_token_def)
qed

lemma authenticate_consistent:
  assumes "consistent e a s"
  shows "consistent e a (snd (authenticate e s))"
proof -
  let ?q = "\<lparr>url = auth_url s, req_headers = None, req_data = JNull\<rparr>"
  have t: "sent (trace (snd (authenticate e s))) = sent (trace s) @ [?q]"
    by (rule authenticate_sent)
  have a: "auth_url (snd (authenticate e s)) = auth_url s"
    by (rule authenticate_auth_url)
  have h: "headers (snd (authenticate e s)) =
             (case granted e (sent (trace s)) ?q of
                Some tok \<Rightarrow> dict_set (headers s) ''Access-Token'' tok
              | None \<Rightarrow> headers s)"
    by (rule authenticate_headers)
  show ?thesis
    using assms
    by (simp add: consistent_def t a h next_token_def split: option.split)
qed

lemma api_request_consistent:
  assumes "consistent e a s"
  shows "consistent e a (snd (api_request e s ep d efn rr))"
proof (cases "blank ep")
  case True
  then show ?thesis
    using assms by (simp add: api_request_def non_blank_def)
next
  case False
  let ?u = "api_url s @ ''/'' @ ep"
  obtain res s1 where mr: "make_request e s ?u (Some (headers s)) d efn rr = (res, s1)"
    by (cases "make_request e s ?u (Some (headers s)) d efn rr")
  have c1: "consistent e a s1"
    using make_request_consistent [OF assms, of ?u d efn rr] mr by simp
  obtain ares s2 where au: "authenticate e s1 = (ares, s2)"
    by (cases "authenticate e s1")
  have c2: "consistent e a s2"
    using authenticate_consistent [OF c1] au by simp
  have c3: "consistent e a (snd (make_request e s2 ?u (Some (headers s2)) d efn rr))"
    using c2 by (rule make_request_consistent)
  show ?thesis
    using False mr au c1 c2 c3
    by (cases res; cases ares) (simp_all add: api_request_def Let_def)
qed

lemma perform_consistent:
  assumes "consistent e a s"
  shows "consistent e a (perform e s c)"
  using assms
  by (cases c)
     (simp_all add: api_request_consistent authenticate_consistent
        getAllNftByUserAddress_def getGroupByNftContract_def getMintByUserAddress_def
        getMintByUserAddressAndNftAddress_def getNFTRecordByContract_def
        getNftByContractAndUserAddress_def getRecordByUserAddressAndTokenId_def
        getSingleNft_def getSingleNftRecord_def getStates_def getUserRecordByContract_def
        getUserRecordByUserAddress_def split: option.split)

lemma run_consistent:
  "consistent e a s \<Longrightarrow> consistent e a (run e s cs)"
  by (induction cs arbitrary: s) (simp_all add: perform_consistent)

section \<open>The JSON text of a value and its parser\<close>

declare dumps_nat.simps [simp del]

lemma below_16_cases:
  "n < 16 \<Longrightarrow> n \<in> {0, 1, 2, 3, 4, 5, 6, 7, 8, 9, 10, 11, 12, 13, 14, 15::nat}"
  by (simp only: insert_iff empty_iff) arith

lemma hex_value_hex_digit: "n < 16 \<Longrightarrow> hex_value (hex_digit n) = Some n"
  using below_16_cases [of n] by (auto simp add: hex_digit_def hex_value_def)

lemma of_char_hex_digit: "n < 10 \<Longrightarrow> (of_char (hex_digit n) :: nat) = 48 + n"
  using below_16_cases [of n] by (auto simp add: hex_digit_def)

lemma is_digit_hex_digit: "n < 10 \<Longrightarrow> is_digit (hex_digit n)"
  by (simp add: is_digit_def of_char_hex_digit)

lemma dumps_nat_digits: "list_all is_digit (dumps_nat n)"
proof (induction n rule: dumps_nat.induct)
  case (1 n)
  then show ?case
    by (subst dumps_nat.simps) (simp add: is_digit_hex_digit)
qed

lemma dumps_nat_not_Nil: "dumps_nat n \<noteq> []"
  by (subst dumps_nat.simps) simp

lemma loads_nat_snoc: "loads_nat (ds @ [c]) = 10 * loads_nat ds + (of_char c - 48)"
  by (simp add: loads_nat_def)

lemma loads_nat_dumps_nat: "loads_nat (dumps_nat n) = n"
proof (induction n rule: dumps_nat.induct)
  case (1 n)
  show ?case
  proof (cases "n < 10")
    case True
    then show ?thesis
      by (subst dumps_nat.simps) (simp add: loads_nat_def of_char_hex_digit)
  next
    case False
    then show ?thesis
      using 1 by (subst dumps_nat.simps) (simp add: loads_nat_snoc of_char_hex_digit)
  qed
qed

lemma hd_dumps_nat: "hd (dumps_nat n) = CHR ''0'' \<Longrightarrow> length (dumps_nat n) = 1"
proof (induction n rule: dumps_nat.induct)
  case (1 n)
  show ?case
  proof (cases "n < 10")
    case True
    then show ?thesis
      by (subst dumps_nat.simps) simp
  next
    case False
    then have "dumps_nat n = dumps_nat (n div 10) @ [hex_digit (n mod 10)]"
      by (subst dumps_nat.simps) simp
    then have h: "hd (dumps_nat (n div 10)) = CHR ''0''"
      using "1.prems" dumps_nat_not_Nil [of "n div 10"] by simp
    then have l: "length (dumps_nat (n div 10)) = 1"
      using "1.IH" False by simp
    have "n div 10 < 10"
    proof (rule ccontr)
      assume "\<not> n div 10 < 10"
      then have "dumps_nat (n div 10) = dumps_nat (n div 10 div 10) @ [hex_digit (n div 10 mod 10)]"
        by (subst dumps_nat.simps) simp
      then show False
        using l dumps_nat_not_Nil [of "n div 10 div 10"] by simp
    qed
    then have "dumps_nat (n div 10) = [hex_digit (n div 10)]"
      by (subst dumps_nat.simps) simp
    then have "hex_digit (n div 10) = CHR ''0''"
      using h by simp
    moreover have "n div 10 \<noteq> 0"
      using False by simp
    ultimately show ?thesis
      using \<open>n div 10 < 10\<close> below_16_cases [of "n div 10"]
      by (auto simp add: hex_digit_def)
  qed
qed

lemma follows_not_digit: "follows rest \<Longrightarrow> takeWhile is_digit rest = []"
  by (cases rest) (auto simp add: follows_def is_digit_def)

lemma follows_dropWhile: "follows rest \<Longrightarrow> dropWhile is_digit rest = rest"
  by (cases rest) (auto simp add: follows_def is_digit_def)

lemma takeWhile_dumps_nat:
  "follows rest \<Longrightarrow> takeWhile is_digit (dumps_nat n @ rest) = dumps_nat n"
  using dumps_nat_digits [of n]
  by (simp add: list_all_iff follows_not_digit)

lemma dropWhile_dumps_nat:
  "follows rest \<Longrightarrow> dropWhile is_digit (dumps_nat n @ rest) = rest"
  using dumps_nat_digits [of n]
  by (simp add: list_all_iff follows_dropWhile)

lemma hd_dumps_nat_not_minus: "hd (dumps_nat n) \<noteq> CHR ''-''"
  using dumps_nat_digits [of n] dumps_nat_not_Nil [of n]
  by (cases "dumps_nat n") (auto simp add: is_digit_def)

lemma loads_number_nat:
  assumes "follows rest"
  shows "loads_number (dumps_nat n @ rest) = Some (JInt (int n), rest)"
proof -
  have a: "\<not> (hd (dumps_nat n) = CHR ''0'' \<and> length (dumps_nat n) > 1)"
    using hd_dumps_nat [of n] by auto
  have b: "\<not> (rest \<noteq> [] \<and> hd rest \<in> set ''.eE'')"
    using assms by (auto simp add: follows_def)
  show ?thesis
    using a b dumps_nat_not_Nil [of n] hd_dumps_nat_not_minus [of n]
    by (simp add: loads_number_def Let_def takeWhile_dumps_nat [OF assms]
          dropWhile_dumps_nat [OF assms] loads_nat_dumps_nat hd_append)
qed

lemma loads_number_dumps_int:
  assumes "follows rest"
  shows "loads_number (dumps_int i @ rest) = Some (JInt i, rest)"
proof (cases "i < 0")
  case True
  have a: "\<not> (hd (dumps_nat (nat (- i))) = CHR ''0'' \<and> length (dumps_nat (nat (- i))) > 1)"
    using hd_dumps_nat [of "nat (- i)"] by auto
  have b: "\<not> (rest \<noteq> [] \<and> hd rest \<in> set ''.eE'')"
    using assms by (auto simp add: follows_def)
  show ?thesis
    using True a b dumps_nat_not_Nil [of "nat (- i)"]
    by (simp add: dumps_int_def loads_number_def Let_def takeWhile_dumps_nat [OF assms]
          dropWhile_dumps_nat [OF assms] loads_nat_dumps_nat)
next
  case False
  then show ?thesis
    using loads_number_nat [OF assms, of "nat i"] by (simp add: dumps_int_def)
qed

lemma of_char_less_256: "(of_char c :: nat) < 256"
  by (metis of_char_mod_256 mod_less_divisor zero_less_numeral)

lemma hex4_byte:
  assumes "n < 256"
  shows "hex4 CHR ''0'' CHR ''0'' (hex_digit (n div 16)) (hex_digit (n mod 16)) = Some n"
proof -
  have "n div 16 < 16"
    using assms by simp
  then have a: "hex_value (hex_digit (n div 16)) = Some (n div 16)"
    by (rule hex_value_hex_digit)
  have b: "hex_value (hex_digit (n mod 16)) = Some (n mod 16)"
    by (rule hex_value_hex_digit) simp
  have z: "hex_value CHR ''0'' = Some 0"
    by (simp add: hex_value_def)
  show ?thesis
    by (simp add: hex4_def a b z)
qed

lemma loads_chars_escape:
  "loads_chars (escape_char c @ cs) = map_option (apfst ((#) c)) (loads_chars cs)"
proof -
  let ?n = "of_char c :: nat"
  consider
      (special) "c \<in> set [CHR 0x22, CHR 0x5C, CHR 0x0A, CHR 0x0D, CHR 0x09, CHR 0x08, CHR 0x0C]"
    | (plain) "c \<notin> set [CHR 0x22, CHR 0x5C, CHR 0x0A, CHR 0x0D, CHR 0x09, CHR 0x08, CHR 0x0C]"
        "32 \<le> ?n" "?n \<le> 126"
    | (coded) "c \<notin> set [CHR 0x22, CHR 0x5C, CHR 0x0A, CHR 0x0D, CHR 0x09, CHR 0x08, CHR 0x0C]"
        "\<not> (32 \<le> ?n \<and> ?n \<le> 126)"
    by blast
  then show ?thesis
  proof cases
    case special
    then show ?thesis
      by (auto simp add: escape_char_def unescape_def)
  next
    case plain
    then show ?thesis
      by (simp add: escape_char_def)
  next
    case coded
    have "hex4 CHR ''0'' CHR ''0'' (hex_digit (?n div 16)) (hex_digit (?n mod 16)) = Some ?n"
      by (rule hex4_byte) (rule of_char_less_256)
    then show ?thesis
      using coded of_char_less_256 [of c] by (simp add: escape_char_def)
  qed
qed

lemma loads_chars_escaped:
  "loads_chars (concat (map escape_char s) @ CHR 0x22 # rest) = Some (s, rest)"
  by (induction s) (simp_all add: loads_chars_escape)

lemma loads_chars_dumps_str:
  "loads_chars (tl (dumps_str s) @ rest) = Some (s, rest)"
  by (simp add: dumps_str_def loads_chars_escaped)

lemma skip_ws_Cons [simp]: "\<not> is_ws c \<Longrightarrow> skip_ws (c # cs) = c # cs"
  by (simp add: skip_ws_def)

lemma skip_ws_space [simp]: "skip_ws (CHR 0x20 # cs) = skip_ws cs"
  by (simp add: skip_ws_def is_ws_def)

lemma skip_ws_Nil [simp]: "skip_ws [] = []"
  by (simp add: skip_ws_def)

lemma loads_value_space [simp]: "loads_value n (CHR 0x20 # cs) = loads_value n cs"
  by (cases n) simp_all

lemma loads_elems_space [simp]: "loads_elems n (CHR 0x20 # cs) = loads_elems n cs"
  by (cases n) simp_all

lemma loads_items_space [simp]: "loads_items n (CHR 0x20 # cs) = loads_items n cs"
  by (cases n) simp_all

lemma dict_set_fresh: "k \<notin> fst ` set d \<Longrightarrow> dict_set d k v = d @ [(k, v)]"
  by (induction d k v rule: dict_set.induct) auto

lemma foldl_dict_set:
  "distinct (map fst (d @ ps)) \<Longrightarrow>
     foldl (\<lambda>d (k, v). dict_set d k v) d ps = d @ ps"
proof (induction ps arbitrary: d)
  case Nil
  then show ?case by simp
next
  case (Cons p ps)
  obtain k v where p: "p = (k, v)"
    by (cases p)
  have "k \<notin> fst ` set d"
    using Cons.prems p by auto
  then have "dict_set d k v = d @ [(k, v)]"
    by (rule dict_set_fresh)
  moreover have "distinct (map fst ((d @ [(k, v)]) @ ps))"
    using Cons.prems p by simp
  ultimately show ?case
    using Cons.IH [of "d @ [(k, v)]"] p by simp
qed

lemma dict_distinct: "distinct (map fst ps) \<Longrightarrow> dict ps = ps"
  using foldl_dict_set [of "[]" ps] by (simp add: dict_def)

lemma dumps_nat_head: "\<exists>c cs. dumps_nat n = c # cs \<and> is_digit c"
  using dumps_nat_digits [of n] dumps_nat_not_Nil [of n]
  by (cases "dumps_nat n") simp_all

lemma dumps_int_head: "\<exists>c cs. dumps_int i = c # cs \<and> (c = CHR ''-'' \<or> is_digit c)"
  using dumps_nat_head [of "nat i"] by (auto simp add: dumps_int_def)

lemma json_dumps_head: "\<exists>c cs. json_dumps d = c # cs \<and> opener c"
proof (cases d)
  case (JInt i)
  obtain c cs where "dumps_int i = c # cs" "c = CHR ''-'' \<or> is_digit c"
    using dumps_int_head by blast
  then show ?thesis
    using JInt by (auto simp add: opener_def is_ws_def is_digit_def)
qed (simp_all add: opener_def is_ws_def dumps_str_def)

lemma loads_value_number:
  assumes "c = CHR ''-'' \<or> is_digit c"
  shows "loads_value (Suc n) (c # cs) = loads_number (c # cs)"
proof -
  have "\<not> is_ws c"
    using assms by (auto simp add: is_ws_def is_digit_def)
  moreover have "c \<notin> set ''ntf[{'' \<and> c \<noteq> CHR 0x22"
    using assms by (auto simp add: is_digit_def)
  ultimately show ?thesis
    by simp
qed

lemma loads_value_int:
  assumes "follows rest"
  shows "loads_value (Suc n) (dumps_int i @ rest) = Some (JInt i, rest)"
proof -
  obtain c cs where h: "dumps_int i = c # cs" "c = CHR ''-'' \<or> is_digit c"
    using dumps_int_head by blast
  have "loads_value (Suc n) (c # cs @ rest) = loads_number (c # cs @ rest)"
    using h(2) by (rule loads_value_number)
  then show ?thesis
    using h(1) loads_number_dumps_int [OF assms, of i] by simp
qed

lemma loads_roundtrip:
  "wf_json d \<Longrightarrow> depth d \<le> n \<Longrightarrow> follows rest \<Longrightarrow>
     loads_value n (json_dumps d @ rest) = Some (d, rest)"
  "xs \<noteq> [] \<Longrightarrow> wf_elems xs \<Longrightarrow> depth_elems xs \<le> n \<Longrightarrow>
     loads_elems n (dumps_elems xs @ CHR '']'' # rest) = Some (xs, rest)"
  "kvs \<noteq> [] \<Longrightarrow> wf_items kvs \<Longrightarrow> depth_items kvs \<le> n \<Longrightarrow>
     loads_items n (dumps_items kvs @ CHR ''}'' # rest) = Some (kvs, rest)"
proof (induction d and xs and kvs arbitrary: n rest and n rest and n rest
    rule: json_dumps_dumps_elems_dumps_items.induct)
  case 1
  then obtain m where "n = Suc m"
    by (cases n) simp_all
  then show ?case
    by (simp add: is_ws_def)
next
  case (2 b)
  then obtain m where "n = Suc m"
    by (cases n) simp_all
  then show ?case
    by (simp add: is_ws_def)
next
  case (3 i)
  then obtain m where "n = Suc m"
    by (cases n) simp_all
  then show ?case
    using loads_value_int [OF "3.prems"(3)] by simp
next
  case (4 s)
  then obtain m where "n = Suc m"
    by (cases n) simp_all
  then show ?case
    using loads_chars_dumps_str [of s rest]
    by (simp add: is_ws_def dumps_str_def)
next
  case (5 xs)
  then obtain m where n: "n = Suc m"
    by (cases n) simp_all
  show ?case
  proof (cases xs)
    case Nil
    then show ?thesis
      using n by (simp add: is_ws_def)
  next
    case (Cons x ys)
    obtain c cs where h: "json_dumps x = c # cs" "opener c"
      using json_dumps_head by blast
    have e: "\<exists>cs'. dumps_elems xs = c # cs'"
      using Cons h(1) by (cases ys) simp_all
    then obtain cs' where e': "dumps_elems xs = c # cs'"
      by blast
    have "loads_elems m (dumps_elems xs @ CHR '']'' # rest) = Some (xs, rest)"
      using "5.IH" [of m rest] "5.prems" n Cons by simp
    then show ?thesis
      using n e' h(2) by (simp add: is_ws_def opener_def)
  qed
next
  case (6 kvs)
  then obtain m where n: "n = Suc m"
    by (cases n) simp_all
  show ?case
  proof (cases kvs)
    case Nil
    then show ?thesis
      using n by (simp add: is_ws_def)
  next
    case (Cons kv ys)
    obtain k v where kv: "kv = (k, v)"
      by (cases kv)
    have e: "\<exists>cs'. dumps_items kvs = CHR 0x22 # cs'"
      using Cons kv by (cases ys) (simp_all add: dumps_str_def)
    then obtain cs' where e': "dumps_items kvs = CHR 0x22 # cs'"
      by blast
    have "loads_items m (dumps_items kvs @ CHR ''}'' # rest) = Some (kvs, rest)"
      using "6.IH" [of m rest] "6.prems" n Cons by simp
    moreover have "dict kvs = kvs"
      using "6.prems" by (simp add: dict_distinct)
    ultimately show ?thesis
      using n e' by (simp add: is_ws_def)
  qed
next
  case 7
  then show ?case by simp
next
  case (8 x)
  then obtain m where n: "n = Suc m"
    by (cases n) simp_all
  have "loads_value m (json_dumps x @ CHR '']'' # rest) = Some (x, CHR '']'' # rest)"
    using "8.IH" [of m "CHR '']'' # rest"] "8.prems" n by (simp add: follows_def)
  then show ?case
    using n by (simp add: is_ws_def)
next
  case (9 x y ys)
  then obtain m where n: "n = Suc m"
    by (cases n) simp_all
  let ?tail = "dumps_elems (y # ys) @ CHR '']'' # rest"
  have "loads_value m (json_dumps x @ CHR '','' # CHR 0x20 # ?tail)
          = Some (x, CHR '','' # CHR 0x20 # ?tail)"
    using "9.IH"(1) [of m "CHR '','' # CHR 0x20 # ?tail"] "9.prems" n
    by (simp add: follows_def)
  moreover have "loads_elems m ?tail = Some (y # ys, rest)"
    using "9.IH"(2) [of m rest] "9.prems" n by simp
  ultimately show ?case
    using n by (simp add: is_ws_def)
next
  case 10
  then show ?case by simp
next
  case (11 k v)
  then obtain m where n: "n = Suc m"
    by (cases n) simp_all
  have s: "loads_chars (tl (dumps_str k) @ CHR '':'' # CHR 0x20 # json_dumps v @ CHR ''}'' # rest)
             = Some (k, CHR '':'' # CHR 0x20 # json_dumps v @ CHR ''}'' # rest)"
    by (rule loads_chars_dumps_str)
  have "loads_value m (json_dumps v @ CHR ''}'' # rest) = Some (v, CHR ''}'' # rest)"
    using "11.IH" [of m "CHR ''}'' # rest"] "11.prems" n by (simp add: follows_def)
  then show ?case
    using n s by (simp add: is_ws_def dumps_str_def)
next
  case (12 k v kv kvs)
  then obtain m where n: "n = Suc m"
    by (cases n) simp_all
  let ?tail = "dumps_items (kv # kvs) @ CHR ''}'' # rest"
  have s: "loads_chars (tl (dumps_str k) @ CHR '':'' # CHR 0x20 # json_dumps v
                          @ CHR '','' # CHR 0x20 # ?tail)
             = Some (k, CHR '':'' # CHR 0x20 # json_dumps v @ CHR '','' # CHR 0x20 # ?tail)"
    by (rule loads_chars_dumps_str)
  have "loads_value m (json_dumps v @ CHR '','' # CHR 0x20 # ?tail)
          = Some (v, CHR '','' # CHR 0x20 # ?tail)"
    using "12.IH"(1) [of m "CHR '','' # CHR 0x20 # ?tail"] "12.prems" n
    by (simp add: follows_def)
  moreover have "loads_items m ?tail = Some (kv # kvs, rest)"
    using "12.IH"(2) [of m rest] "12.prems" n by simp
  ultimately show ?case
    using n s by (simp add: is_ws_def dumps_str_def)
qed

lemma depth_bound:
  "depth d \<le> length (json_dumps d)"
  "depth_elems xs \<le> Suc (length (dumps_elems xs))"
  "depth_items kvs \<le> Suc (length (dumps_items kvs))"
proof (induction d and xs and kvs rule: json_dumps_dumps_elems_dumps_items.induct)
  case (3 i)
  obtain c cs where "dumps_int i = c # cs"
    using dumps_int_head by blast
  then show ?case by simp
qed (simp_all add: dumps_str_def)

lemma json_loads_json_dumps:
  assumes "wf_json d"
  shows "json_loads (json_dumps d) = Some d"
proof -
  have "depth d \<le> Suc (length (json_dumps d))"
    using depth_bound(1) [of d] by simp
  then have "loads_value (Suc (length (json_dumps d))) (json_dumps d @ []) = Some (d, [])"
    using assms by (intro loads_roundtrip(1)) (simp_all add: follows_def)
  then show ?thesis
    by (simp add: json_loads_def)
qed

section \<open>The authenticated request\<close>

text \<open>
  C1, as amended. When the first send of \<^verbatim>\<open>_api_request\<close> raises and the call of
  \<^verbatim>\<open>_authenticate\<close> that follows returns, the call is the second send: its result or
  error is that of the retry, with the headers as the authentication left them. The
  requests of the call are the first send, one authentication exchange and one retry,
  and no more.
\<close>

theorem api_request_single_retry:
  assumes nb: "\<not> blank endpoint"
    and first: "make_request e s (api_url s @ ''/'' @ endpoint) (Some (headers s)) d efn rr
                  = (Inl err, s1)"
    and auth: "authenticate e s1 = (Inr v, s2)"
  shows "api_request e s endpoint d efn rr =
           make_request e s2 (api_url s @ ''/'' @ endpoint) (Some (headers s2)) d efn rr
       \<and> sent (trace (snd (api_request e s endpoint d efn rr))) =
           sent (trace s) @
             [\<lparr>url = api_url s @ ''/'' @ endpoint, req_headers = Some (headers s), req_data = d\<rparr>,
              \<lparr>url = auth_url s, req_headers = None, req_data = JNull\<rparr>,
              \<lparr>url = api_url s @ ''/'' @ endpoint, req_headers = Some (headers s2),
               req_data = d\<rparr>]"
proof -
  let ?u = "api_url s @ ''/'' @ endpoint"
  have eq: "api_request e s endpoint d efn rr = make_request e s2 ?u (Some (headers s2)) d efn rr"
    using nb first auth by (simp add: api_request_def Let_def)
  have t1: "sent (trace s1) = sent (trace s) @ [\<lparr>url = ?u, req_headers = Some (headers s), req_data = d\<rparr>]"
    using make_request_sent [OF endpoint_url_not_blank, of e s "api_url s" endpoint "Some (headers s)" d efn rr] first by simp
  have a1: "auth_url s1 = auth_url s"
    using make_request_attrs [OF first] by (simp add: auth_url_def)
  have t2: "sent (trace s2) = sent (trace s1) @ [\<lparr>url = auth_url s, req_headers = None, req_data = JNull\<rparr>]"
    using authenticate_sent [of e s1] auth a1 by simp
  have t3: "sent (trace (snd (make_request e s2 ?u (Some (headers s2)) d efn rr))) =
              sent (trace s2) @ [\<lparr>url = ?u, req_headers = Some (headers s2), req_data = d\<rparr>]"
    by (rule make_request_sent [OF endpoint_url_not_blank])
  show ?thesis
    using eq t1 t2 t3 by simp
qed

theorem api_request_single_retry_witness:
  "\<not> blank ''getSingleNft''
   \<and> make_request retry_server fresh (api_url fresh @ ''/'' @ ''getSingleNft'')
        (Some (headers fresh)) demo_body [] False = (Inl (HTTPError, ''denied''), after_first)
   \<and> authenticate retry_server after_first = (Inr (), after_auth)
   \<and> fst (api_request retry_server fresh ''getSingleNft'' demo_body [] False)
        = Inr (Data (JStr ''nft''))
   \<and> sent (trace (snd (api_request retry_server fresh ''getSingleNft'' demo_body [] False)))
        = [demo_request (Some (headers fresh)), auth_request,
           demo_request (Some (headers after_auth))]"
proof -
  note t = api_request_single_retry [OF demo_endpoint_not_blank retry_first retry_auth]
  have u: "api_url fresh @ ''/getSingleNft'' = demo_url"
    and a: "auth_url fresh = url auth_request"
    and tr: "trace fresh = []"
    by (simp_all add: demo_defs auth_url_def)
  have r: "fst (api_request retry_server fresh ''getSingleNft'' demo_body [] False)
             = Inr (Data (JStr ''nft''))"
    using t [THEN conjunct1] retry_second by simp
  have q: "sent (trace (snd (api_request retry_server fresh ''getSingleNft'' demo_body [] False)))
             = [demo_request (Some (headers fresh)), auth_request,
                demo_request (Some (headers after_auth))]"
    using t [THEN conjunct2] by (simp add: u a tr demo_request_def auth_request_def)
  show ?thesis
    using demo_endpoint_not_blank retry_first retry_auth r q by blast
qed

text \<open>
  C1 as stated fails where the authentication raises: the first send is answered 401,
  the exchange 403, and the endpoint is requested once only.
\<close>

theorem retry_skipped_counterexample:
  "fst (make_request no_auth_server fresh (api_url fresh @ ''/'' @ ''getSingleNft'')
          (Some (headers fresh)) demo_body [] False) = Inl (HTTPError, ''denied'')
   \<and> fst (api_request no_auth_server fresh ''getSingleNft'' demo_body [] False)
        = Inl (ConnectionError, ''The server blocked access.'')
   \<and> sent (trace (snd (api_request no_auth_server fresh ''getSingleNft'' demo_body [] False)))
        = [demo_request (Some (headers fresh)), auth_request]"
  by (simp add: demo_defs run_defs)

text \<open>
  C10. When the first send raises and \<^verbatim>\<open>_authenticate\<close> raises too, \<^verbatim>\<open>_api_request\<close>
  raises the error of the authentication, and no second send is issued: the requests of
  the call are the first send and the authentication exchange.
\<close>

theorem api_request_auth_failure:
  assumes nb: "\<not> blank endpoint"
    and first: "make_request e s (api_url s @ ''/'' @ endpoint) (Some (headers s)) d efn rr
                  = (Inl err, s1)"
    and auth: "authenticate e s1 = (Inl err', s2)"
  shows "api_request e s endpoint d efn rr = (Inl err', s2)
       \<and> sent (trace s2) =
           sent (trace s) @
             [\<lparr>url = api_url s @ ''/'' @ endpoint, req_headers = Some (headers s), req_data = d\<rparr>,
              \<lparr>url = auth_url s, req_headers = None, req_data = JNull\<rparr>]"
proof -
  let ?u = "api_url s @ ''/'' @ endpoint"
  have eq: "api_request e s endpoint d efn rr = (Inl err', s2)"
    using nb first auth by (simp add: api_request_def Let_def)
  have t1: "sent (trace s1) = sent (trace s) @ [\<lparr>url = ?u, req_headers = Some (headers s), req_data = d\<rparr>]"
    using make_request_sent [OF endpoint_url_not_blank, of e s "api_url s" endpoint "Some (headers s)" d efn rr] first by simp
  have a1: "auth_url s1 = auth_url s"
    using make_request_attrs [OF first] by (simp add: auth_url_def)
  have t2: "sent (trace s2) = sent (trace s1) @ [\<lparr>url = auth_url s, req_headers = None, req_data = JNull\<rparr>]"
    using authenticate_sent [of e s1] auth a1 by simp
  show ?thesis
    using eq t1 t2 by simp
qed

theorem api_request_auth_failure_witness:
  "\<not> blank ''getSingleNft''
   \<and> make_request keyless_server fresh (api_url fresh @ ''/'' @ ''getSingleNft'')
        (Some (headers fresh)) demo_body [] False
        = (Inl (RequestException, ''timed out''), after_first)
   \<and> authenticate keyless_server after_first = (Inl (KeyError, ''accessToken''), after_keyless)
   \<and> api_request keyless_server fresh ''getSingleNft'' demo_body [] False
        = (Inl (KeyError, ''accessToken''), after_keyless)
   \<and> sent (trace after_keyless) = [demo_request (Some (headers fresh)), auth_request]"
proof -
  have f: "make_request keyless_server fresh (api_url fresh @ ''/'' @ ''getSingleNft'')
             (Some (headers fresh)) demo_body [] False
             = (Inl (RequestException, ''timed out''), after_first)"
    by (simp add: demo_defs run_defs)
  have a: "authenticate keyless_server after_first
             = (Inl (KeyError, ''accessToken''), after_keyless)"
    by (simp add: demo_defs run_defs)
  note t = api_request_auth_failure [OF demo_endpoint_not_blank f a]
  have q: "sent (trace after_keyless) = [demo_request (Some (headers fresh)), auth_request]"
    by (simp add: demo_defs)
  show ?thesis
    using demo_endpoint_not_blank f a t [THEN conjunct1] q by blast
qed

text \<open>
  C2, as amended. A response with status 200 and the body
  \<^verbatim>\<open>{"code": 401, "data": null}\<close> and a response with status 401 both make
  \<^verbatim>\<open>_make_request\<close> raise HTTPError with the text of the response. In \<^verbatim>\<open>_api_request\<close>
  each is followed by one authentication exchange; when the authentication returns, by
  one retry, whose result is the result of the call; when it raises, by no retry.
\<close>

theorem unauthorized_either_way:
  assumes nb: "\<not> blank endpoint"
    and resp: "post e (sent (trace s))
                 \<lparr>url = api_url s @ ''/'' @ endpoint, req_headers = Some (headers s), req_data = d\<rparr>
                 = Inr r"
    and kind: "status_code r = 401
               \<or> (status_code r = 200
                   \<and> json_body r = Inr (JObj [(''code'', JInt 401), (''data'', JNull)]))"
    and first: "make_request e s (api_url s @ ''/'' @ endpoint) (Some (headers s)) d efn rr
                  = (res, s1)"
    and auth: "authenticate e s1 = (ares, s2)"
  shows "res = Inl (HTTPError, resp_text r)
       \<and> (case ares of
             Inl err \<Rightarrow>
               api_request e s endpoint d efn rr = (Inl err, s2)
               \<and> sent (trace s2) =
                   sent (trace s) @
                     [\<lparr>url = api_url s @ ''/'' @ endpoint, req_headers = Some (headers s),
                       req_data = d\<rparr>,
                      \<lparr>url = auth_url s, req_headers = None, req_data = JNull\<rparr>]
           | Inr v \<Rightarrow>
               api_request e s endpoint d efn rr =
                 make_request e s2 (api_url s @ ''/'' @ endpoint) (Some (headers s2)) d efn rr
               \<and> sent (trace (snd (api_request e s endpoint d efn rr))) =
                   sent (trace s) @
                     [\<lparr>url = api_url s @ ''/'' @ endpoint, req_headers = Some (headers s),
                       req_data = d\<rparr>,
                      \<lparr>url = auth_url s, req_headers = None, req_data = JNull\<rparr>,
                      \<lparr>url = api_url s @ ''/'' @ endpoint, req_headers = Some (headers s2),
                       req_data = d\<rparr>])"
proof -
  let ?u = "api_url s @ ''/'' @ endpoint"
  have res: "res = Inl (HTTPError, resp_text r)"
    using kind
  proof
    assume "status_code r = 401"
    with resp first show ?thesis
      by (simp add: make_request_def Let_def)
  next
    assume "status_code r = 200
            \<and> json_body r = Inr (JObj [(''code'', JInt 401), (''data'', JNull)])"
    with resp first show ?thesis
      by (auto simp add: make_request_def Let_def)
  qed
  have t1: "sent (trace s1) =
              sent (trace s) @ [\<lparr>url = ?u, req_headers = Some (headers s), req_data = d\<rparr>]"
    using make_request_sent [OF endpoint_url_not_blank, of e s "api_url s" endpoint
        "Some (headers s)" d efn rr] first by simp
  have a1: "auth_url s1 = auth_url s"
    using make_request_attrs [OF first] by (simp add: auth_url_def)
  have t2: "sent (trace s2) =
              sent (trace s1) @ [\<lparr>url = auth_url s, req_headers = None, req_data = JNull\<rparr>]"
    using authenticate_sent [of e s1] auth a1 by simp
  have t3: "sent (trace (snd (make_request e s2 ?u (Some (headers s2)) d efn rr))) =
              sent (trace s2) @ [\<lparr>url = ?u, req_headers = Some (headers s2), req_data = d\<rparr>]"
    by (rule make_request_sent [OF endpoint_url_not_blank])
  show ?thesis
  proof (cases ares)
    case (Inl err)
    have "api_request e s endpoint d efn rr = (Inl err, s2)"
      using nb first auth res Inl by (simp add: api_request_def Let_def)
    then show ?thesis
      using res Inl t1 t2 by simp
  next
    case (Inr v)
    have "api_request e s endpoint d efn rr = make_request e s2 ?u (Some (headers s2)) d efn rr"
      using nb first auth res Inr by (simp add: api_request_def Let_def)
    then show ?thesis
      using res Inr t1 t2 t3 by simp
  qed
qed

theorem unauthorized_either_way_witness:
  "\<not> blank ''getSingleNft''
   \<and> post body401_server (sent (trace fresh))
        \<lparr>url = api_url fresh @ ''/'' @ ''getSingleNft'', req_headers = Some (headers fresh),
         req_data = demo_body\<rparr> = Inr unauthorized_body
   \<and> status_code unauthorized_body = 200
   \<and> json_body unauthorized_body = Inr (JObj [(''code'', JInt 401), (''data'', JNull)])
   \<and> fst (make_request body401_server fresh (api_url fresh @ ''/'' @ ''getSingleNft'')
             (Some (headers fresh)) demo_body [] False) = Inl (HTTPError, ''unauthorized'')
   \<and> fst (authenticate body401_server
             (snd (make_request body401_server fresh (api_url fresh @ ''/'' @ ''getSingleNft'')
                     (Some (headers fresh)) demo_body [] False))) = Inr ()
   \<and> sent (trace (snd (api_request body401_server fresh ''getSingleNft'' demo_body [] False)))
        = [demo_request (Some (headers fresh)), auth_request,
           demo_request (Some (headers after_auth))]"
proof -
  let ?first = "make_request body401_server fresh (api_url fresh @ ''/'' @ ''getSingleNft'')
                  (Some (headers fresh)) demo_body [] False"
  have p: "post body401_server (sent (trace fresh))
             \<lparr>url = api_url fresh @ ''/'' @ ''getSingleNft'', req_headers = Some (headers fresh),
              req_data = demo_body\<rparr> = Inr unauthorized_body"
    by (simp add: body401_server_def post_server_first)
  have st: "status_code unauthorized_body = 200"
    and jb: "json_body unauthorized_body = Inr (JObj [(''code'', JInt 401), (''data'', JNull)])"
    and tx: "resp_text unauthorized_body = ''unauthorized''"
    by (simp_all add: unauthorized_body_def reply_def)
  have k: "status_code unauthorized_body = 401
           \<or> (status_code unauthorized_body = 200
               \<and> json_body unauthorized_body = Inr (JObj [(''code'', JInt 401), (''data'', JNull)]))"
    using st jb by simp
  have f: "?first = (fst ?first, snd ?first)"
    by simp
  have a: "authenticate body401_server (snd ?first)
             = (Inr (), snd (authenticate body401_server (snd ?first)))"
    by (simp add: demo_defs run_defs)
  have h: "headers (snd (authenticate body401_server (snd ?first))) = headers after_auth"
    by (simp add: demo_defs run_defs)
  note t = unauthorized_either_way [OF demo_endpoint_not_blank p k f a]
  have r1: "fst ?first = Inl (HTTPError, ''unauthorized'')"
    using t [THEN conjunct1] tx by simp
  have r2: "sent (trace (snd (api_request body401_server fresh ''getSingleNft'' demo_body [] False)))
        = [demo_request (Some (headers fresh)), auth_request,
           demo_request (Some (headers after_auth))]"
    using t [THEN conjunct2, unfolded sum.case, THEN conjunct2] h
    by (simp add: demo_request_def demo_url_def auth_request_def auth_url_def fresh_def)
  have r3: "fst (authenticate body401_server (snd ?first)) = Inr ()"
    using a by (simp add: prod_eq_iff)
  show ?thesis
    using demo_endpoint_not_blank p st jb r1 r2 r3 by blast
qed

text \<open>
  C2 as stated fails where the authentication raises: the body carries 401, the
  connection of the exchange is refused, and the endpoint is requested once only.
\<close>

theorem unauthorized_body_counterexample:
  "fst (make_request body401_only_server fresh (api_url fresh @ ''/'' @ ''getSingleNft'')
          (Some (headers fresh)) demo_body [] False) = Inl (HTTPError, ''unauthorized'')
   \<and> fst (api_request body401_only_server fresh ''getSingleNft'' demo_body [] False)
        = Inl (RequestException, ''connection refused'')
   \<and> sent (trace (snd (api_request body401_only_server fresh ''getSingleNft'' demo_body [] False)))
        = [demo_request (Some (headers fresh)), auth_request]"
  by (simp add: demo_defs run_defs)

section \<open>The status codes\<close>



text \<open>
  C6. When the transport status is none of the five and the parsed body lacks the
  \<^verbatim>\<open>code\<close> field or the \<^verbatim>\<open>data\<close> field, \<^verbatim>\<open>_make_request\<close> raises: a dict raises the
  Exception of the missing field, \<^verbatim>\<open>code\<close> first, and a value that is no dict raises
  AttributeError at \<^verbatim>\<open>keys()\<close>.
\<close>

theorem make_request_lacks_field:
  assumes nb: "\<not> blank u"
    and resp: "post e (sent (trace s)) \<lparr>url = u, req_headers = hdrs, req_data = d\<rparr> = Inr r"
    and st: "status_code r \<notin> {400, 401, 403, 495, 504}"
    and body: "json_body r = Inr j"
    and lacks: "\<not> has_field j ''code'' \<or> \<not> has_field j ''data''"
  shows "fst (make_request e s u hdrs d efn rr) =
           Inl (case j of
                  JObj kvs \<Rightarrow>
                    (PyException,
                     if \<not> has_field j ''code''
                     then ''Request failed, no HTTP status code in JSON response''
                     else ''Request failed, no data in JSON response'')
                | _ \<Rightarrow> (AttributeError, []))"
  using nb resp st body lacks
  by (cases j)
     (auto simp add: make_request_def Let_def has_field_def split: option.split)

theorem make_request_lacks_field_witness:
  "\<not> blank demo_url
   \<and> post (server [Inr (reply 200 ''body'' (JObj [(''data'', JNull)]))]) (sent (trace fresh))
        \<lparr>url = demo_url, req_headers = None, req_data = demo_body\<rparr>
        = Inr (reply 200 ''body'' (JObj [(''data'', JNull)]))
   \<and> status_code (reply 200 ''body'' (JObj [(''data'', JNull)])) \<notin> {400, 401, 403, 495, 504}
   \<and> json_body (reply 200 ''body'' (JObj [(''data'', JNull)])) = Inr (JObj [(''data'', JNull)])
   \<and> \<not> has_field (JObj [(''data'', JNull)]) ''code''
   \<and> fst (make_request (server [Inr (reply 200 ''body'' (JObj [(''data'', JNull)]))]) fresh
             demo_url None demo_body [] False)
        = Inl (PyException, ''Request failed, no HTTP status code in JSON response'')"
proof -
  let ?r = "reply 200 ''body'' (JObj [(''data'', JNull)])"
  have st: "status_code ?r \<notin> {400, 401, 403, 495, 504}"
    and body: "json_body ?r = Inr (JObj [(''data'', JNull)])"
    by (simp_all add: reply_def)
  have lacks: "\<not> has_field (JObj [(''data'', JNull)]) ''code''"
    by (simp add: has_field_def)
  have lacks': "\<not> has_field (JObj [(''data'', JNull)]) ''code''
                  \<or> \<not> has_field (JObj [(''data'', JNull)]) ''data''"
    using lacks by simp
  note t = make_request_lacks_field [OF demo_url_not_blank post_server_first st body lacks',
      of "[]" None demo_body "[]" False]
  have r: "fst (make_request (server [Inr ?r]) fresh demo_url None demo_body [] False)
             = Inl (PyException, ''Request failed, no HTTP status code in JSON response'')"
    using t lacks by simp
  show ?thesis
    using demo_url_not_blank post_server_first [of ?r "[]"] st body lacks r by blast
qed

text \<open>
  C9. When neither the transport status nor the \<^verbatim>\<open>code\<close> of the body is one of the
  five, \<^verbatim>\<open>_make_request\<close> raises nothing: it returns the \<^verbatim>\<open>data\<close> value, or the response
  object when \<^verbatim>\<open>return_response\<close> is set.
\<close>

theorem make_request_other_code:
  assumes nb: "\<not> blank u"
    and resp: "post e (sent (trace s)) \<lparr>url = u, req_headers = hdrs, req_data = d\<rparr> = Inr r"
    and st: "status_code r \<notin> {400, 401, 403, 495, 504}"
    and body: "json_body r = Inr (JObj kvs)"
    and code: "map_of kvs ''code'' = Some c"
    and payload: "map_of kvs ''data'' = Some p"
    and other: "c \<notin> {JInt 400, JInt 401, JInt 403, JInt 495, JInt 504}"
  shows "fst (make_request e s u hdrs d efn rr) = Inr (if rr then Response r else Data p)"
  using assms
  by (simp add: make_request_def Let_def)

theorem make_request_other_code_witness:
  "\<not> blank demo_url
   \<and> post (server [Inr (reply 200 ''body'' (JObj [(''code'', JInt 500), (''data'', JStr ''x'')]))])
        (sent (trace fresh)) \<lparr>url = demo_url, req_headers = None, req_data = demo_body\<rparr>
        = Inr (reply 200 ''body'' (JObj [(''code'', JInt 500), (''data'', JStr ''x'')]))
   \<and> status_code (reply 200 ''body'' (JObj [(''code'', JInt 500), (''data'', JStr ''x'')]))
        \<notin> {400, 401, 403, 495, 504}
   \<and> map_of [(''code'', JInt 500), (''data'', JStr ''x'')] ''code'' = Some (JInt 500)
   \<and> map_of [(''code'', JInt 500), (''data'', JStr ''x'')] ''data'' = Some (JStr ''x'')
   \<and> JInt 500 \<notin> {JInt 400, JInt 401, JInt 403, JInt 495, JInt 504}
   \<and> fst (make_request
             (server [Inr (reply 200 ''body'' (JObj [(''code'', JInt 500), (''data'', JStr ''x'')]))])
             fresh demo_url None demo_body [] False)
        = Inr (Data (JStr ''x''))"
proof -
  let ?kvs = "[(''code'', JInt 500), (''data'', JStr ''x'')]"
  let ?r = "reply 200 ''body'' (JObj ?kvs)"
  have st: "status_code ?r \<notin> {400, 401, 403, 495, 504}"
    and body: "json_body ?r = Inr (JObj ?kvs)"
    by (simp_all add: reply_def)
  have c: "map_of ?kvs ''code'' = Some (JInt 500)"
    and d: "map_of ?kvs ''data'' = Some (JStr ''x'')"
    and o: "JInt 500 \<notin> {JInt 400, JInt 401, JInt 403, JInt 495, JInt 504}"
    by simp_all
  note t = make_request_other_code [OF demo_url_not_blank post_server_first st body c d o,
      of "[]" None demo_body "[]" False]
  have r: "fst (make_request (server [Inr ?r]) fresh demo_url None demo_body [] False)
             = Inr (Data (JStr ''x''))"
    using t by simp
  show ?thesis
    using demo_url_not_blank post_server_first [of ?r "[]"] st c d o r by blast
qed

section \<open>The export\<close>

text \<open>
  C8. When \<^verbatim>\<open>_make_request\<close> succeeds (neither the transport status nor the \<^verbatim>\<open>code\<close>
  of the body is one of the five) and the export target is not empty, the file of that
  name holds the JSON text of the \<^verbatim>\<open>data\<close> payload afterwards, whatever it held
  before, and parsing that text gives the payload back.
\<close>

theorem export_round_trip:
  assumes nb: "\<not> blank u"
    and resp: "post e (sent (trace s)) \<lparr>url = u, req_headers = hdrs, req_data = d\<rparr> = Inr r"
    and st: "status_code r \<notin> {400, 401, 403, 495, 504}"
    and body: "json_body r = Inr (JObj kvs)"
    and code: "map_of kvs ''code'' = Some c"
    and other: "c \<notin> {JInt 400, JInt 401, JInt 403, JInt 495, JInt 504}"
    and payload: "map_of kvs ''data'' = Some p"
    and wf: "wf_json p"
    and name: "export_file_name \<noteq> []"
  shows "map_of (files (snd (make_request e s u hdrs d export_file_name rr))) export_file_name
           = Some (force_encoded_json p)
       \<and> json_loads (force_encoded_json p) = Some p"
proof -
  have "snd (make_request e s u hdrs d export_file_name rr) =
          export_file (force_encoded_json p) export_file_name
            (s\<lparr>trace := trace s @ [Post \<lparr>url = u, req_headers = hdrs, req_data = d\<rparr>, JsonParse]\<rparr>)"
    using nb resp st body code other payload name
    by (simp add: make_request_def Let_def)
  then have "map_of (files (snd (make_request e s u hdrs d export_file_name rr))) export_file_name
               = Some (force_encoded_json p)"
    by (simp add: export_file_def)
  moreover have "json_loads (force_encoded_json p) = Some p"
    using wf by (simp add: force_encoded_json_def json_loads_json_dumps)
  ultimately show ?thesis
    by (rule conjI)
qed

theorem export_round_trip_witness:
  \<open>\<not> blank demo_url
   \<and> post (server [Inr envelope_reply]) (sent (trace with_old_file))
        \<lparr>url = demo_url, req_headers = None, req_data = demo_body\<rparr> = Inr envelope_reply
   \<and> status_code envelope_reply \<notin> {400, 401, 403, 495, 504}
   \<and> json_body envelope_reply
        = Inr (JObj [(''code'', JInt 0), (''data'', JObj [(''foo'', JStr ''bar'')])])
   \<and> wf_json (JObj [(''foo'', JStr ''bar'')])
   \<and> map_of (files with_old_file) ''out.json'' = Some ''old''
   \<and> map_of (files (snd (make_request (server [Inr envelope_reply]) with_old_file demo_url
                            None demo_body ''out.json'' False))) ''out.json''
        = Some ''{"foo": "bar"}''
   \<and> json_loads ''{"foo": "bar"}'' = Some (JObj [(''foo'', JStr ''bar'')])\<close>
proof -
  let ?p = "JObj [(''foo'', JStr ''bar'')]"
  let ?kvs = "[(''code'', JInt 0), (''data'', ?p)]"
  have po: "post (server [Inr envelope_reply]) (sent (trace with_old_file))
        \<lparr>url = demo_url, req_headers = None, req_data = demo_body\<rparr> = Inr envelope_reply"
    by (simp add: server_def scripted_def with_old_file_def fresh_def)
  have st: "status_code envelope_reply \<notin> {400, 401, 403, 495, 504}"
    and body: "json_body envelope_reply = Inr (JObj ?kvs)"
    by (simp_all add: envelope_reply_def reply_def)
  have c: "map_of ?kvs ''code'' = Some (JInt 0)"
    and o: "JInt 0 \<notin> {JInt 400, JInt 401, JInt 403, JInt 495, JInt 504}"
    and d: "map_of ?kvs ''data'' = Some ?p"
    and wf: "wf_json ?p"
    and nm: "''out.json'' \<noteq> []"
    by simp_all
  have old: "map_of (files with_old_file) ''out.json'' = Some ''old''"
    by (simp add: with_old_file_def)
  have written: \<open>force_encoded_json ?p = ''{"foo": "bar"}''\<close>
    by (simp add: force_encoded_json_def dumps_str_def escape_char_def)
  note t = export_round_trip [OF demo_url_not_blank po st body c o d wf nm, of False]
  show ?thesis
    using demo_url_not_blank po st body wf old t [unfolded written] by blast
qed

section \<open>The token in the headers\<close>

text \<open>
  C7, as amended. From the construction of the client on, whatever calls are made and
  whatever the server answers, every request sent is the authentication exchange, with
  key and secret in the URL and no headers, or carries in its headers, as
  \<^verbatim>\<open>Access-Token\<close>, the \<^verbatim>\<open>accessToken\<close> that the server returned in the latest exchange
  that completed; as long as no exchange has completed, it carries no such entry.
\<close>

theorem requests_carry_granted_token:
  assumes "init key secret base_url version fs = Inr s0"
  shows "tokens_ok e (auth_url s0) None [] (sent (trace (run e s0 calls)))"
proof -
  have "consistent e (auth_url s0) s0"
    using assms
    by (auto simp add: init_def consistent_def split: option.splits)
  then have "consistent e (auth_url s0) (run e s0 calls)"
    by (rule run_consistent)
  then show ?thesis
    by (simp add: consistent_def)
qed

theorem requests_carry_granted_token_witness:
  "init ''key'' ''secret'' ''https://restapi.nftscan.com/api/'' ''v1'' [] = Inr fresh
   \<and> granted retry_server [demo_request (Some [(''Content-Type'', JStr ''application/json'')])]
         auth_request = Some (JStr ''tok123'')
   \<and> tokens_ok retry_server (auth_url fresh) None []
         (sent (trace (run retry_server fresh
                         [GetSingleNft ''0xabc'' ''7'' [], GetSingleNft ''0xabc'' ''7'' []])))
   \<and> sent (trace (run retry_server fresh
                      [GetSingleNft ''0xabc'' ''7'' [], GetSingleNft ''0xabc'' ''7'' []]))
        = [demo_request (Some [(''Content-Type'', JStr ''application/json'')]),
           auth_request,
           demo_request (Some [(''Content-Type'', JStr ''application/json''),
                               (''Access-Token'', JStr ''tok123'')]),
           demo_request (Some [(''Content-Type'', JStr ''application/json''),
                               (''Access-Token'', JStr ''tok123'')]),
           auth_request]"
proof -
  note t = requests_carry_granted_token [OF init_fresh,
      of retry_server "[GetSingleNft ''0xabc'' ''7'' [], GetSingleNft ''0xabc'' ''7'' []]"]
  have g: "granted retry_server [demo_request (Some [(''Content-Type'', JStr ''application/json'')])]
             auth_request = Some (JStr ''tok123'')"
    by (simp add: granted_def demo_defs datetime_add_def)
  have q: "sent (trace (run retry_server fresh
                      [GetSingleNft ''0xabc'' ''7'' [], GetSingleNft ''0xabc'' ''7'' []]))
        = [demo_request (Some [(''Content-Type'', JStr ''application/json'')]),
           auth_request,
           demo_request (Some [(''Content-Type'', JStr ''application/json''),
                               (''Access-Token'', JStr ''tok123'')]),
           demo_request (Some [(''Content-Type'', JStr ''application/json''),
                               (''Access-Token'', JStr ''tok123'')]),
           auth_request]"
    by (simp add: getSingleNft_def demo_defs run_defs)
  show ?thesis
    using init_fresh g t q by blast
qed

text \<open>
  C7 as stated fails where the exchange returns a token and does not complete. With a
  \<^verbatim>\<open>data\<close> that holds \<^verbatim>\<open>accessToken\<close> and no \<^verbatim>\<open>expiration\<close>, the client stores the
  token and raises, and its next request carries no token. With the token and the
  expiration outside the envelope, the client raises as well, and its next request
  carries no token.
\<close>

theorem returned_token_not_carried_counterexample:
  "accessToken (run stale_server fresh
                  [GetSingleNft ''0xabc'' ''7'' [], GetSingleNft ''0xabc'' ''7'' []])
     = Some (JStr ''tok456'')
   \<and> sent (trace (run stale_server fresh
                      [GetSingleNft ''0xabc'' ''7'' [], GetSingleNft ''0xabc'' ''7'' []]))
        = [demo_request (Some [(''Content-Type'', JStr ''application/json'')]),
           auth_request,
           demo_request (Some [(''Content-Type'', JStr ''application/json'')])]
   \<and> sent (trace (run bare_server fresh
                      [GetSingleNft ''0xabc'' ''7'' [], GetSingleNft ''0xabc'' ''7'' []]))
        = [demo_request (Some [(''Content-Type'', JStr ''application/json'')]),
           auth_request,
           demo_request (Some [(''Content-Type'', JStr ''application/json'')])]"
  by (simp add: getSingleNft_def demo_defs run_defs)

section \<open>The domain methods and their arguments\<close>

text \<open>
  C3. \<^verbatim>\<open>getAllNftByUserAddress\<close> sends \<^verbatim>\<open>min(page_size, MAX_PAGE_SIZE)\<close>: 10 goes
  out as 10 and 500 as 100. \<^verbatim>\<open>getMintByUserAddress\<close> sends the page size as given:
  500 goes out as 500.
\<close>

theorem page_size_cap_missing:
  "sent (trace (snd (getAllNftByUserAddress (server [Inr ok_reply]) fresh ''erc721'' ''0xabc''
                       0 10 [])))
     = [\<lparr>url = ''https://restapi.nftscan.com/api//v1/getAllNftByUserAddress'',
         req_headers = Some (headers fresh),
         req_data = JObj [(''erc'', JStr ''erc721''), (''walletType'', JInt 3),
                          (''page_index'', JInt 0), (''page_size'', JInt 10),
                          (''user_address'', JStr ''0xabc'')]\<rparr>]
   \<and> sent (trace (snd (getAllNftByUserAddress (server [Inr ok_reply]) fresh ''erc721'' ''0xabc''
                       0 500 [])))
     = [\<lparr>url = ''https://restapi.nftscan.com/api//v1/getAllNftByUserAddress'',
         req_headers = Some (headers fresh),
         req_data = JObj [(''erc'', JStr ''erc721''), (''walletType'', JInt 3),
                          (''page_index'', JInt 0), (''page_size'', JInt 100),
                          (''user_address'', JStr ''0xabc'')]\<rparr>]
   \<and> sent (trace (snd (getMintByUserAddress (server [Inr ok_reply]) fresh 0 500 ''0xabc'' [])))
     = [\<lparr>url = ''https://restapi.nftscan.com/api//v1/getMintByUserAddress'',
         req_headers = Some (headers fresh),
         req_data = JObj [(''page_index'', JInt 0), (''page_size'', JInt 500),
                          (''user_address'', JStr ''0xabc'')]\<rparr>]"
proof -
  have "sent (trace (snd (getAllNftByUserAddress (server [Inr ok_reply]) fresh ''erc721''
                            ''0xabc'' 0 10 [])))
     = [\<lparr>url = ''https://restapi.nftscan.com/api//v1/getAllNftByUserAddress'',
         req_headers = Some (headers fresh),
         req_data = JObj [(''erc'', JStr ''erc721''), (''walletType'', JInt 3),
                          (''page_index'', JInt 0), (''page_size'', JInt 10),
                          (''user_address'', JStr ''0xabc'')]\<rparr>]"
    by (simp add: getAllNftByUserAddress_def non_negative_def erc_valid_def MAX_PAGE_SIZE_def
          demo_defs run_defs)
  moreover have "sent (trace (snd (getAllNftByUserAddress (server [Inr ok_reply]) fresh ''erc721''
                            ''0xabc'' 0 500 [])))
     = [\<lparr>url = ''https://restapi.nftscan.com/api//v1/getAllNftByUserAddress'',
         req_headers = Some (headers fresh),
         req_data = JObj [(''erc'', JStr ''erc721''), (''walletType'', JInt 3),
                          (''page_index'', JInt 0), (''page_size'', JInt 100),
                          (''user_address'', JStr ''0xabc'')]\<rparr>]"
    by (simp add: getAllNftByUserAddress_def non_negative_def erc_valid_def MAX_PAGE_SIZE_def
          demo_defs run_defs)
  moreover have
    "sent (trace (snd (getMintByUserAddress (server [Inr ok_reply]) fresh 0 500 ''0xabc'' [])))
     = [\<lparr>url = ''https://restapi.nftscan.com/api//v1/getMintByUserAddress'',
         req_headers = Some (headers fresh),
         req_data = JObj [(''page_index'', JInt 0), (''page_size'', JInt 500),
                          (''user_address'', JStr ''0xabc'')]\<rparr>]"
    by (simp add: getMintByUserAddress_def non_negative_def demo_defs run_defs)
  ultimately show ?thesis
    by (intro conjI)
qed

text \<open>
  C4. \<^verbatim>\<open>getMintByUserAddress\<close> rejects a blank \<^verbatim>\<open>user_address\<close> before any request.
  \<^verbatim>\<open>getAllNftByUserAddress\<close> validates neither \<^verbatim>\<open>user_address\<close> nor \<^verbatim>\<open>page_size\<close>: a
  blank address and a page size of -1 are sent to the server.
\<close>

theorem blank_address_not_rejected:
  "getMintByUserAddress (server [Inr ok_reply]) fresh 0 20 [] []
     = (Inl (ValueError, ''Parameter `user_address <str>` cannot be blank nor empty''), fresh)
   \<and> getAllNftByUserAddress (server [Inr ok_reply]) fresh ''erc721'' [] 0 (- 1) []
     = (Inr (Data (JStr ''nft'')),
        fresh\<lparr>trace :=
          [Post \<lparr>url = ''https://restapi.nftscan.com/api//v1/getAllNftByUserAddress'',
                 req_headers = Some (headers fresh),
                 req_data = JObj [(''erc'', JStr ''erc721''), (''walletType'', JInt 3),
                                  (''page_index'', JInt 0), (''page_size'', JInt (- 1)),
                                  (''user_address'', JStr [])]\<rparr>,
           JsonParse]\<rparr>)"
proof -
  have "getMintByUserAddress (server [Inr ok_reply]) fresh 0 20 [] []
     = (Inl (ValueError, ''Parameter `user_address <str>` cannot be blank nor empty''), fresh)"
    by (simp add: getMintByUserAddress_def non_negative_def non_blank_def blank_def)
  moreover have
    "getAllNftByUserAddress (server [Inr ok_reply]) fresh ''erc721'' [] 0 (- 1) []
     = (Inr (Data (JStr ''nft'')),
        fresh\<lparr>trace :=
          [Post \<lparr>url = ''https://restapi.nftscan.com/api//v1/getAllNftByUserAddress'',
                 req_headers = Some (headers fresh),
                 req_data = JObj [(''erc'', JStr ''erc721''), (''walletType'', JInt 3),
                                  (''page_index'', JInt 0), (''page_size'', JInt (- 1)),
                                  (''user_address'', JStr [])]\<rparr>,
           JsonParse]\<rparr>)"
    by (simp add: getAllNftByUserAddress_def non_negative_def erc_valid_def MAX_PAGE_SIZE_def
          demo_defs run_defs)
  ultimately show ?thesis
    by (rule conjI)
qed

end
